theory Spec2Isabelle
  imports Main "HOL-Library.Word"
begin

section \<open>Shader binding table of RtProgramVars (Raytracing/RtProgramVars.cpp)\<close>

text \<open>
  The file builds the shader binding table (SBT) of a ray-tracing pipeline: \<open>init\<close>
  computes the record size and allocates the buffers, the three accessors compute the
  address of a record inside the staging copy \<open>mSbtData\<close>, and \<open>apply\<close> writes every
  record and uploads the staging copy to the GPU buffer \<open>mpSBT\<close>.

  All counts, indices and sizes of the source are \<open>uint32_t\<close>: they are \<open>32 word\<close>
  here, so every \<open>+\<close> and \<open>*\<close> wraps as in the source. A pointer into the staging copy
  is the number of bytes between it and \<open>mSbtData.data()\<close>, a \<open>nat\<close> (the source adds
  the 32-bit offset to a pointer, which does not wrap).
\<close>

type_synonym u8 = "8 word"
type_synonym u32 = "32 word"

subsection \<open>Fatal outcomes\<close>

text \<open>
  A call either returns or stops the program. \<open>AssertionFailed\<close> is a failed \<open>assert\<close>
  (the macro of the framework, with assertions compiled in); the other three are the
  undefined behaviours the source can reach: a null or dangling pointer that is
  dereferenced, a \<open>memcpy\<close> or parameter write that leaves the staging copy, a division
  by a zero alignment.
\<close>

datatype fault = AssertionFailed | InvalidPointer | BufferOverrun | DivisionByZero

subsection \<open>Collaborators\<close>

text \<open>
  The program set, the scene, the device, the pipeline state object and the binding
  variables are declared in other files; each is the record of what this file asks of it.
\<close>

record RtProgramVersion =
  getRootSignatureSizeInBytes :: u32
  getExportName :: string

text \<open>
  A shared pointer is the object it points to, or \<open>None\<close> for \<open>nullptr\<close> and for the
  dangling pointer an unchecked \<open>operator[]\<close> reads past the end of a vector.
  A program is identified with its active version (\<open>getActiveVersion()\<close>), the only
  thing this file reads of it. \<open>getRayGenProgram\<close> is \<open>None\<close> for \<open>nullptr\<close>.
\<close>

record RtProgram =
  getRayGenProgram :: "RtProgramVersion option"
  getHitProgramCount :: u32
  getHitProgram :: "u32 \<Rightarrow> RtProgramVersion"
  getMissProgramCount :: u32
  getMissProgram :: "u32 \<Rightarrow> RtProgramVersion"

record RtScene =
  getGeometryCount :: "u32 \<Rightarrow> u32"

text \<open>
  The device: the size of a shader identifier, the platform constant
  \<open>D3D12_RAYTRACING_SHADER_RECORD_BYTE_ALIGNMENT\<close> (declared by the graphics API, taken
  as a parameter), and the sizes for which \<open>Buffer::create\<close> returns \<open>nullptr\<close>.
\<close>

record Device =
  GetShaderIdentifierSize :: u32
  SHADER_RECORD_BYTE_ALIGNMENT :: u32
  bufferCreateFails :: "nat \<Rightarrow> bool"

text \<open>
  The pipeline state object: \<open>GetShaderIdentifier(exportName)\<close> points to an opaque
  blob, read byte by byte.
\<close>

record RtStateObject =
  GetShaderIdentifier :: "string \<Rightarrow> nat \<Rightarrow> u8"

text \<open>
  Modelled from the spec: the binding-variable instance (\<open>GraphicsVars\<close>, whose class is
  not in this file). The spec gives it one operation at apply time, "serialize its
  current resource bindings into the immediately following bytes using the program's
  root/parameter layout", which succeeds or fails: \<open>bindingsResolved\<close> is whether it
  succeeds and \<open>rootParams\<close> the bytes it serializes. Callers change both between
  applies.
\<close>

record GraphicsVars =
  bindingsResolved :: bool
  rootParams :: "nat \<Rightarrow> u8"

text \<open>
  Modelled from the spec: \<open>GraphicsVars::create\<close>, the spec's factory
  "create(reflector, rootSignature)", which is not in this file. The spec does not say
  what a new instance holds; here its bindings resolve and its parameter block is zero.
\<close>

definition GraphicsVars_create :: "RtProgramVersion \<Rightarrow> GraphicsVars" where
  "GraphicsVars_create pVersion = \<lparr>bindingsResolved = True, rootParams = (\<lambda>_. 0)\<rparr>"

text \<open>
  Modelled from the spec: the GPU buffer (\<open>Buffer\<close>, whose class is not in this file),
  "a GPU-visible buffer of a given byte size" that "supports whole-buffer upload from a
  CPU-side byte array".
\<close>

record Buffer =
  getSize :: nat
  contents :: "u8 list"

text \<open>
  Modelled from the spec: \<open>Buffer::create\<close>, which is not in this file: the buffer has
  the byte size asked for; its first contents are taken to be zero.
\<close>

definition Buffer_create :: "Device \<Rightarrow> nat \<Rightarrow> Buffer option" where
  "Buffer_create dev n =
     (if bufferCreateFails dev n then None
      else Some \<lparr>getSize = n, contents = replicate n 0\<rparr>)"

text \<open>
  The commands the render context receives, in the order it receives them. The helper
  context \<open>mpRtVarsHelper\<close> is created from the device's render context, so its
  \<open>setRootParams\<close> (with the root-signature size and the address it is given) and the
  \<open>updateBuffer\<close> of \<open>apply\<close> are entries of one list. \<open>rootParamsBase\<close> is the
  target that the last \<open>setRootParams\<close> has set.
\<close>

datatype command = SetRootParams u32 nat | UpdateBuffer

record RenderContext =
  commands :: "command list"
  rootParamsBase :: "(u32 \<times> nat) option"

subsection \<open>The object\<close>

text \<open>
  The members of \<open>RtProgramVars\<close>. \<open>mpProgram\<close> and \<open>mpScene\<close> are shared pointers: the
  field is the object as it is now, so a scene that changes between \<open>init\<close> and
  \<open>apply\<close> is an update of \<open>mpScene\<close>, and bindings that a caller sets are an update
  of the variable sets. \<open>mpSBT\<close> is the GPU buffer, \<open>mSbtData\<close> its staging copy.
\<close>

record RtProgramVars =
  mpProgram :: RtProgram
  mpScene :: "RtScene option"
  mRayGenVars :: "GraphicsVars option"
  mHitVars :: "GraphicsVars option list list"
  mMissVars :: "GraphicsVars option list"
  mHitProgCount :: u32
  mMissProgCount :: u32
  mFirstHitVarEntry :: u32
  mProgramIdentifierSize :: u32
  mRecordSize :: u32
  mpSBT :: "Buffer option"
  mSbtData :: "u8 list"

text \<open>
  Modelled from the spec: \<open>kRayGenSbtRecordIndex\<close> of the header, which is not in this
  file. The spec has \<open>rayGenOffset = 0\<close>, and the layout comment of the source puts the
  ray-gen record first and the miss records right after it.
\<close>

definition kRayGenSbtRecordIndex :: u32 where
  "kRayGenSbtRecordIndex = 0"

text \<open>
  Modelled from the spec: \<open>kFirstMissSbtRecordIndex\<close> of the same header, the spec's
  \<open>firstMissIndex = rayGenSlotCount (=1)\<close>.
\<close>

definition kFirstMissSbtRecordIndex :: u32 where
  "kFirstMissSbtRecordIndex = 1"

text \<open>
  Modelled from the spec: the macro \<open>align_to\<close> of the framework header, which is not in
  this file. The spec's \<open>alignUp(boundary, size)\<close> rounds \<open>size\<close> up to the next multiple
  of \<open>boundary\<close> (its example: 96 aligned to 64 is 128); on \<open>uint32_t\<close> that is the usual
  divide-and-multiply, whose addition wraps.
\<close>

definition align_to :: "u32 \<Rightarrow> u32 \<Rightarrow> u32" where
  "align_to alignment val = ((val + alignment - 1) div alignment) * alignment"

subsection \<open>Loops\<close>

text \<open>
  \<open>for (uint32_t i = i0; i < n; i++) body\<close>. The body returns the next state, or leaves
  the function with a value (\<open>Some r\<close>, the \<open>return false\<close> of \<open>apply\<close>), or stops the
  program. The bound expressions of the source read objects that no body writes, so
  the bound is the same in every iteration.
\<close>

function for_loop ::
  "u32 \<Rightarrow> u32 \<Rightarrow> (u32 \<Rightarrow> 's \<Rightarrow> fault + (bool option \<times> 's)) \<Rightarrow> 's \<Rightarrow> fault + (bool option \<times> 's)"
where
  "for_loop i n body s =
     (if i < n then
        (case body i s of
           Inl f \<Rightarrow> Inl f
         | Inr (Some r, s') \<Rightarrow> Inr (Some r, s')
         | Inr (None, s') \<Rightarrow> for_loop (i + 1) n body s')
      else Inr (None, s))"
  by pat_completeness auto
termination
proof (relation "measure (\<lambda>(i, n, body, s). unat n - unat i)")
  show "wf (measure (\<lambda>(i, n, body, s). unat n - unat i))" by simp
next
  fix i n :: u32
  fix body :: "u32 \<Rightarrow> 's \<Rightarrow> fault + (bool option \<times> 's)"
  fix s s' :: 's
  assume lt: "i < n"
  have "unat n < 2 ^ 32"
    using unsigned_less [of n] by simp
  moreover from lt have "unat i < unat n"
    by (simp add: word_less_nat_alt)
  ultimately have "unat i + 1 < 2 ^ 32"
    by simp
  then have "unat (i + 1) = Suc (unat i)"
    by (simp add: unat_word_ariths)
  with \<open>unat i < unat n\<close> show "((i + 1, n, body, s'), (i, n, body, s)) \<in> measure (\<lambda>(i, n, body, s). unat n - unat i)"
    by simp
qed

declare for_loop.simps [simp del]

subsection \<open>Construction\<close>

definition checkParams :: "RtProgram \<Rightarrow> RtScene option \<Rightarrow> bool" where
  "checkParams pProgram pScene =
     (if pScene = None then False
      else if getRayGenProgram pProgram = None then False
      else True)"

text \<open>The constructor stores its two arguments; every other member is still empty.\<close>

definition RtProgramVars_new :: "RtProgram \<Rightarrow> RtScene option \<Rightarrow> RtProgramVars" where
  "RtProgramVars_new pProgram pScene =
     \<lparr>mpProgram = pProgram, mpScene = pScene, mRayGenVars = None, mHitVars = [],
      mMissVars = [], mHitProgCount = 0, mMissProgCount = 0, mFirstHitVarEntry = 0,
      mProgramIdentifierSize = 0, mRecordSize = 0, mpSBT = None, mSbtData = []\<rparr>"

text \<open>
  \<open>getSigSizeAndCreateVars\<close> returns the new running maximum and the \<open>varCount\<close>
  variable sets that the source stores into \<open>pVars[0 .. varCount - 1]\<close>.
\<close>

definition getSigSizeAndCreateVars ::
  "RtProgramVersion \<Rightarrow> u32 \<Rightarrow> u32 \<Rightarrow> u32 \<times> GraphicsVars option list" where
  "getSigSizeAndCreateVars pVersion maxRootSigSize varCount =
     (max (getRootSignatureSizeInBytes pVersion) maxRootSigSize,
      map (\<lambda>i. Some (GraphicsVars_create pVersion)) [0..<unat varCount])"

text \<open>The bodies of the two loops of \<open>init\<close>, on the pair of \<open>maxRootSigSize\<close> and the vector.\<close>

definition init_hit_body ::
  "RtProgram \<Rightarrow> u32 \<Rightarrow> u32 \<Rightarrow> u32 \<times> GraphicsVars option list list
     \<Rightarrow> fault + (bool option \<times> (u32 \<times> GraphicsVars option list list))" where
  "init_hit_body pProgram recordCountPerHit i = (\<lambda>(maxRootSigSize, hitVars).
     (case getSigSizeAndCreateVars (getHitProgram pProgram i) maxRootSigSize recordCountPerHit of
        (maxRootSigSize', vars) \<Rightarrow> Inr (None, (maxRootSigSize', hitVars[unat i := vars]))))"

definition init_miss_body ::
  "RtProgram \<Rightarrow> u32 \<Rightarrow> u32 \<times> GraphicsVars option list
     \<Rightarrow> fault + (bool option \<times> (u32 \<times> GraphicsVars option list))" where
  "init_miss_body pProgram i = (\<lambda>(maxRootSigSize, missVars).
     (case getSigSizeAndCreateVars (getMissProgram pProgram i) maxRootSigSize 1 of
        (maxRootSigSize', vars) \<Rightarrow> Inr (None, (maxRootSigSize', missVars[unat i := hd vars]))))"

text \<open>Lines 107 and 108: the number of records of the table.\<close>

definition numEntries :: "u32 \<Rightarrow> u32 \<Rightarrow> u32 \<Rightarrow> u32" where
  "numEntries missProgCount hitProgCount recordCountPerHit =
     (let hitEntries = recordCountPerHit * hitProgCount
      in missProgCount + hitEntries + 1)"

definition init :: "Device \<Rightarrow> RtProgramVars \<Rightarrow> fault + (bool \<times> RtProgramVars)" where
  "init dev v =
     (case getRayGenProgram (mpProgram v) of
        None \<Rightarrow> Inl InvalidPointer
      | Some rayGen \<Rightarrow>
     (case getSigSizeAndCreateVars rayGen 0 1 of (maxRootSigSize0, rayGenVars) \<Rightarrow>
     (let hitProgCount = getHitProgramCount (mpProgram v);
          missProgCount = getMissProgramCount (mpProgram v);
          firstHitVarEntry = kFirstMissSbtRecordIndex + missProgCount
      in
     (case mpScene v of
        None \<Rightarrow> Inl InvalidPointer
      | Some scene \<Rightarrow>
     (let recordCountPerHit = getGeometryCount scene hitProgCount in
     (case for_loop 0 hitProgCount (init_hit_body (mpProgram v) recordCountPerHit)
             (maxRootSigSize0, replicate (unat hitProgCount) []) of
        Inl f \<Rightarrow> Inl f
      | Inr (_, (maxRootSigSize1, hitVars)) \<Rightarrow>
     (case for_loop 0 missProgCount (init_miss_body (mpProgram v))
             (maxRootSigSize1, replicate (unat missProgCount) None) of
        Inl f \<Rightarrow> Inl f
      | Inr (_, (maxRootSigSize, missVars)) \<Rightarrow>
     (let programIdentifierSize = GetShaderIdentifierSize dev;
          entries = numEntries missProgCount hitProgCount recordCountPerHit
      in
      if SHADER_RECORD_BYTE_ALIGNMENT dev = 0 then Inl DivisionByZero
      else
     (let recordSize = align_to (SHADER_RECORD_BYTE_ALIGNMENT dev)
                         (programIdentifierSize + maxRootSigSize)
      in
      if \<not> recordSize \<noteq> 0 then Inl AssertionFailed
      else
     (case Buffer_create dev (unat (entries * recordSize)) of
        None \<Rightarrow> Inl AssertionFailed
      | Some sbt \<Rightarrow>
          Inr (True,
            v\<lparr>mRayGenVars := hd rayGenVars, mHitVars := hitVars, mMissVars := missVars,
              mHitProgCount := hitProgCount, mMissProgCount := missProgCount,
              mFirstHitVarEntry := firstHitVarEntry,
              mProgramIdentifierSize := programIdentifierSize,
              mRecordSize := recordSize, mpSBT := Some sbt,
              mSbtData := replicate (getSize sbt) 0\<rparr>)))))))))))"

definition create :: "Device \<Rightarrow> RtProgram \<Rightarrow> RtScene option \<Rightarrow> fault + RtProgramVars option" where
  "create dev pProgram pScene =
     (let pVars = RtProgramVars_new pProgram pScene in
      if checkParams pProgram pScene = False then Inr None
      else
        (case init dev pVars of
           Inl f \<Rightarrow> Inl f
         | Inr (ok, pVars') \<Rightarrow> if ok = False then Inr None else Inr (Some pVars')))"

subsection \<open>Record accessors\<close>

text \<open>
  Each accessor returns \<open>mSbtData.data()\<close> plus a 32-bit offset: the result is that
  offset, read as a number of bytes.
\<close>

definition getRayGenRecordPtr :: "RtProgramVars \<Rightarrow> nat" where
  "getRayGenRecordPtr v = unat (kRayGenSbtRecordIndex * mRecordSize v)"

definition getMissRecordPtr :: "RtProgramVars \<Rightarrow> u32 \<Rightarrow> fault + nat" where
  "getMissRecordPtr v missId =
     (if \<not> missId < mMissProgCount v then Inl AssertionFailed
      else
        (let offset = mRecordSize v * (kFirstMissSbtRecordIndex + missId)
         in Inr (unat offset)))"

definition getHitRecordPtr :: "RtProgramVars \<Rightarrow> u32 \<Rightarrow> u32 \<Rightarrow> fault + nat" where
  "getHitRecordPtr v hitId meshId =
     (if \<not> hitId < mHitProgCount v then Inl AssertionFailed
      else
        (let meshIndex = mFirstHitVarEntry v + mHitProgCount v * meshId;
             recordIndex = meshIndex + hitId
         in Inr (unat (recordIndex * mRecordSize v))))"

text \<open>
  The accessors of the variable sets (\<open>getRayGenVars()\<close>, \<open>getHitVars(h)[i]\<close>,
  \<open>getMissVars(m)\<close>) index the vectors without a check: out of range they give a
  pointer that is not valid.
\<close>

definition getRayGenVars :: "RtProgramVars \<Rightarrow> GraphicsVars option" where
  "getRayGenVars v = mRayGenVars v"

definition getHitVars :: "RtProgramVars \<Rightarrow> u32 \<Rightarrow> u32 \<Rightarrow> GraphicsVars option" where
  "getHitVars v h i =
     (if unat h < length (mHitVars v) \<and> unat i < length (mHitVars v ! unat h)
      then mHitVars v ! unat h ! unat i else None)"

definition getMissVars :: "RtProgramVars \<Rightarrow> u32 \<Rightarrow> GraphicsVars option" where
  "getMissVars v m = (if unat m < length (mMissVars v) then mMissVars v ! unat m else None)"

subsection \<open>Applying the records\<close>

text \<open>
  \<open>memcpy\<close> of \<open>n\<close> bytes of the blob \<open>src\<close> to the address \<open>dst\<close> of the staging copy;
  a copy that does not end inside the staging copy is an overrun.
\<close>

definition memcpy :: "u8 list \<Rightarrow> nat \<Rightarrow> (nat \<Rightarrow> u8) \<Rightarrow> nat \<Rightarrow> fault + u8 list" where
  "memcpy mem dst src n =
     (if dst + n \<le> length mem
      then Inr (take dst mem @ map src [0..<n] @ drop (dst + n) mem)
      else Inl BufferOverrun)"

text \<open>
  Modelled from the spec: \<open>setRootParams\<close> of the helper context's command list, which
  is not in this file. It tells the context the root signature and the address of "the
  immediately following bytes", where the parameter block is to be serialized.
\<close>

definition setRootParams :: "RenderContext \<Rightarrow> u32 \<Rightarrow> nat \<Rightarrow> RenderContext" where
  "setRootParams ctx rootSig pBase =
     ctx\<lparr>commands := commands ctx @ [SetRootParams rootSig pBase],
         rootParamsBase := Some (rootSig, pBase)\<rparr>"

text \<open>
  Modelled from the spec: \<open>applyProgramVarsCommon\<close> of the binding variables, which is
  not in this file. It serializes the parameter block, as many bytes as the root
  signature has, to the address the context holds, and "propagates failure if
  serialization fails": then it returns false and the staging copy is as it was.
\<close>

definition applyProgramVarsCommon ::
  "GraphicsVars \<Rightarrow> RenderContext \<Rightarrow> u8 list \<Rightarrow> fault + (bool \<times> u8 list)" where
  "applyProgramVarsCommon vars ctx mem =
     (case rootParamsBase ctx of
        None \<Rightarrow> Inl InvalidPointer
      | Some (rootSig, pBase) \<Rightarrow>
          if bindingsResolved vars then
            (case memcpy mem pBase (rootParams vars) (unat rootSig) of
               Inl f \<Rightarrow> Inl f
             | Inr mem' \<Rightarrow> Inr (True, mem'))
          else Inr (False, mem))"

definition applyRtProgramVars ::
  "nat \<Rightarrow> RtProgramVersion \<Rightarrow> RtStateObject \<Rightarrow> u32 \<Rightarrow> GraphicsVars option
     \<Rightarrow> u8 list \<times> RenderContext \<Rightarrow> fault + (bool \<times> u8 list \<times> RenderContext)" where
  "applyRtProgramVars pRecord pProgVersion pRtso progIdSize pVars = (\<lambda>(mem, pContext).
     (case memcpy mem pRecord (GetShaderIdentifier pRtso (getExportName pProgVersion))
             (unat progIdSize) of
        Inl f \<Rightarrow> Inl f
      | Inr mem1 \<Rightarrow>
     (let pRecord' = pRecord + unat progIdSize;
          ctx1 = setRootParams pContext (getRootSignatureSizeInBytes pProgVersion) pRecord'
      in
     (case pVars of
        None \<Rightarrow> Inl InvalidPointer
      | Some vars \<Rightarrow>
     (case applyProgramVarsCommon vars ctx1 mem1 of
        Inl f \<Rightarrow> Inl f
      | Inr (ok, mem2) \<Rightarrow> Inr (ok, mem2, ctx1))))))"

text \<open>
  The bodies of the loops of \<open>apply\<close>, on the pair of the staging copy and the render
  context; the object \<open>v\<close> is only read.
\<close>

definition apply_hit_body ::
  "RtProgramVars \<Rightarrow> RtStateObject \<Rightarrow> u32 \<Rightarrow> u32 \<Rightarrow> u8 list \<times> RenderContext
     \<Rightarrow> fault + (bool option \<times> (u8 list \<times> RenderContext))" where
  "apply_hit_body v pRtso h i s =
     (case getHitRecordPtr v h i of
        Inl f \<Rightarrow> Inl f
      | Inr pHitRecord \<Rightarrow>
     (case applyRtProgramVars pHitRecord (getHitProgram (mpProgram v) h) pRtso
             (mProgramIdentifierSize v) (getHitVars v h i) s of
        Inl f \<Rightarrow> Inl f
      | Inr (ok, s') \<Rightarrow> if \<not> ok then Inr (Some False, s') else Inr (None, s')))"

definition apply_hit_loop ::
  "RtProgramVars \<Rightarrow> RtStateObject \<Rightarrow> u32 \<Rightarrow> u32 \<Rightarrow> u8 list \<times> RenderContext
     \<Rightarrow> fault + (bool option \<times> (u8 list \<times> RenderContext))" where
  "apply_hit_loop v pRtso hitCount h s =
     (case mpScene v of
        None \<Rightarrow> Inl InvalidPointer
      | Some scene \<Rightarrow>
          for_loop 0 (getGeometryCount scene hitCount) (apply_hit_body v pRtso h) s)"

definition apply_miss_body ::
  "RtProgramVars \<Rightarrow> RtStateObject \<Rightarrow> u32 \<Rightarrow> u8 list \<times> RenderContext
     \<Rightarrow> fault + (bool option \<times> (u8 list \<times> RenderContext))" where
  "apply_miss_body v pRtso m s =
     (case getMissRecordPtr v m of
        Inl f \<Rightarrow> Inl f
      | Inr pMissRecord \<Rightarrow>
     (case applyRtProgramVars pMissRecord (getMissProgram (mpProgram v) m) pRtso
             (mProgramIdentifierSize v) (getMissVars v m) s of
        Inl f \<Rightarrow> Inl f
      | Inr (ok, s') \<Rightarrow> if \<not> ok then Inr (Some False, s') else Inr (None, s')))"

text \<open>
  Modelled from the spec: \<open>updateBuffer\<close> of the render context, which is not in this
  file, the spec's "whole-buffer upload from a CPU-side byte array":
  \<open>updateBuffer(mpSBT.get(), mSbtData.data())\<close> copies as many bytes as the buffer has
  from the staging copy.
\<close>

definition updateBuffer ::
  "RenderContext \<Rightarrow> Buffer option \<Rightarrow> u8 list \<Rightarrow> fault + (Buffer \<times> RenderContext)" where
  "updateBuffer pCtx pBuffer pData =
     (case pBuffer of
        None \<Rightarrow> Inl InvalidPointer
      | Some buf \<Rightarrow>
          if length pData < getSize buf then Inl BufferOverrun
          else Inr (buf\<lparr>contents := take (getSize buf) pData\<rparr>,
                    pCtx\<lparr>commands := commands pCtx @ [UpdateBuffer]\<rparr>))"

text \<open>
  \<open>RtProgramVars::apply\<close>, named \<open>rtApply\<close> since \<open>apply\<close> is a keyword of Isabelle. The result of the ray-gen record's \<open>applyRtProgramVars\<close> is
  not read (line 172); a \<open>return false\<close> of a loop leaves the staging copy as the loop
  left it and the GPU buffer as it was.
\<close>

definition rtApply ::
  "RenderContext \<Rightarrow> RtStateObject \<Rightarrow> RtProgramVars
     \<Rightarrow> fault + (bool \<times> RtProgramVars \<times> RenderContext)" where
  "rtApply pCtx pRtso v =
     (let pRayGenRecord = getRayGenRecordPtr v in
     (case getRayGenProgram (mpProgram v) of
        None \<Rightarrow> Inl InvalidPointer
      | Some rayGen \<Rightarrow>
     (case applyRtProgramVars pRayGenRecord rayGen pRtso (mProgramIdentifierSize v)
             (getRayGenVars v) (mSbtData v, pCtx) of
        Inl f \<Rightarrow> Inl f
      | Inr (_, s0) \<Rightarrow>
     (let hitCount = getHitProgramCount (mpProgram v) in
     (case for_loop 0 hitCount (apply_hit_loop v pRtso hitCount) s0 of
        Inl f \<Rightarrow> Inl f
      | Inr (Some r, (mem1, ctx1)) \<Rightarrow> Inr (r, v\<lparr>mSbtData := mem1\<rparr>, ctx1)
      | Inr (None, s1) \<Rightarrow>
     (case for_loop 0 (getMissProgramCount (mpProgram v)) (apply_miss_body v pRtso) s1 of
        Inl f \<Rightarrow> Inl f
      | Inr (Some r, (mem2, ctx2)) \<Rightarrow> Inr (r, v\<lparr>mSbtData := mem2\<rparr>, ctx2)
      | Inr (None, (mem2, ctx2)) \<Rightarrow>
     (case updateBuffer ctx2 (mpSBT v) mem2 of
        Inl f \<Rightarrow> Inl f
      | Inr (buf, ctx3) \<Rightarrow>
          Inr (True, v\<lparr>mSbtData := mem2, mpSBT := Some buf\<rparr>, ctx3))))))))"

subsection \<open>Loops as lists\<close>

text \<open>
  The same loop over the list of its indices: \<open>for_loop 0 n body\<close> is \<open>iterate body\<close> on
  \<open>u32_range n\<close>, the indices \<open>0, 1, ..., n - 1\<close> (proved below as \<open>for_loop_range\<close>).
\<close>

fun iterate ::
  "('a \<Rightarrow> 's \<Rightarrow> fault + (bool option \<times> 's)) \<Rightarrow> 'a list \<Rightarrow> 's \<Rightarrow> fault + (bool option \<times> 's)"
where
  "iterate body [] s = Inr (None, s)"
| "iterate body (x # xs) s =
     (case body x s of
        Inl f \<Rightarrow> Inl f
      | Inr (Some r, s') \<Rightarrow> Inr (Some r, s')
      | Inr (None, s') \<Rightarrow> iterate body xs s')"

definition u32_range :: "u32 \<Rightarrow> u32 list" where
  "u32_range n = map of_nat [0..<unat n]"

text \<open>
  The root-signature sizes that \<open>init\<close> looks at: the ray-gen program's, then every
  hit program's, then every miss program's.
\<close>

definition allRootSigSizes :: "RtProgram \<Rightarrow> RtProgramVersion \<Rightarrow> u32 list" where
  "allRootSigSizes pProgram rayGen =
     getRootSignatureSizeInBytes rayGen
       # map (\<lambda>h. getRootSignatureSizeInBytes (getHitProgram pProgram h))
           (u32_range (getHitProgramCount pProgram))
       @ map (\<lambda>m. getRootSignatureSizeInBytes (getMissProgram pProgram m))
           (u32_range (getMissProgramCount pProgram))"

subsection \<open>The records of the table\<close>

text \<open>
  A record of the table is the ray-gen record, the record of hit program \<open>h\<close> for
  geometry instance \<open>i\<close>, or the record of miss program \<open>m\<close>. For each, the address its
  accessor returns, the program version and the variable set that \<open>apply\<close> passes to
  \<open>applyRtProgramVars\<close>.
\<close>

datatype sbt_record = RayGenRecord | HitRecord u32 u32 | MissRecord u32

fun recordPtr :: "RtProgramVars \<Rightarrow> sbt_record \<Rightarrow> fault + nat" where
  "recordPtr v RayGenRecord = Inr (getRayGenRecordPtr v)"
| "recordPtr v (HitRecord h i) = getHitRecordPtr v h i"
| "recordPtr v (MissRecord m) = getMissRecordPtr v m"

fun recordVersion :: "RtProgramVars \<Rightarrow> sbt_record \<Rightarrow> RtProgramVersion option" where
  "recordVersion v RayGenRecord = getRayGenProgram (mpProgram v)"
| "recordVersion v (HitRecord h i) = Some (getHitProgram (mpProgram v) h)"
| "recordVersion v (MissRecord m) = Some (getMissProgram (mpProgram v) m)"

fun recordVars :: "RtProgramVars \<Rightarrow> sbt_record \<Rightarrow> GraphicsVars option" where
  "recordVars v RayGenRecord = getRayGenVars v"
| "recordVars v (HitRecord h i) = getHitVars v h i"
| "recordVars v (MissRecord m) = getMissVars v m"

text \<open>
  One record applied inside a loop of \<open>apply\<close>: the common shape of the two loop bodies
  (\<open>apply_hit_body_record\<close> and \<open>apply_miss_body_record\<close> below).
\<close>

definition apply_record ::
  "RtProgramVars \<Rightarrow> RtStateObject \<Rightarrow> sbt_record \<Rightarrow> u8 list \<times> RenderContext
     \<Rightarrow> fault + (bool option \<times> (u8 list \<times> RenderContext))" where
  "apply_record v pRtso r s =
     (case recordPtr v r of
        Inl f \<Rightarrow> Inl f
      | Inr pRecord \<Rightarrow>
     (case recordVersion v r of
        None \<Rightarrow> Inl InvalidPointer
      | Some pProgVersion \<Rightarrow>
     (case applyRtProgramVars pRecord pProgVersion pRtso (mProgramIdentifierSize v)
             (recordVars v r) s of
        Inl f \<Rightarrow> Inl f
      | Inr (ok, s') \<Rightarrow> if \<not> ok then Inr (Some False, s') else Inr (None, s'))))"

text \<open>
  The order in which the loops of \<open>apply\<close> reach the records, in the words of the spec:
  "every hit record, iterating hit-group index outer, geometry-instance index inner",
  then "every miss record, iterating miss-program index".
\<close>

definition hitRecords :: "u32 \<Rightarrow> u32 \<Rightarrow> sbt_record list" where
  "hitRecords hitCount geometryCount =
     concat (map (\<lambda>h. map (\<lambda>i. HitRecord h i) (u32_range geometryCount)) (u32_range hitCount))"

definition missRecords :: "u32 \<Rightarrow> sbt_record list" where
  "missRecords missCount = map MissRecord (u32_range missCount)"

text \<open>
  \<open>recordResolved\<close>: the serialization of the record's bindings succeeds.
  \<open>recordFits\<close>: the record has an address and a valid variable set, and the identifier
  and the parameter block written at that address end inside the staging copy.
  \<open>recordCommand\<close>: the \<open>setRootParams\<close> that applying the record sends to the context.
\<close>

definition recordResolved :: "RtProgramVars \<Rightarrow> sbt_record \<Rightarrow> bool" where
  "recordResolved v r = (case recordVars v r of None \<Rightarrow> False | Some vars \<Rightarrow> bindingsResolved vars)"

definition recordFits :: "RtProgramVars \<Rightarrow> sbt_record \<Rightarrow> bool" where
  "recordFits v r =
     (case (recordPtr v r, recordVersion v r) of
        (Inr pRecord, Some pProgVersion) \<Rightarrow>
          recordVars v r \<noteq> None \<and>
          pRecord + unat (mProgramIdentifierSize v)
            + unat (getRootSignatureSizeInBytes pProgVersion) \<le> length (mSbtData v)
      | _ \<Rightarrow> False)"

definition recordCommand :: "RtProgramVars \<Rightarrow> sbt_record \<Rightarrow> command" where
  "recordCommand v r =
     SetRootParams
       (case recordVersion v r of
          None \<Rightarrow> 0
        | Some pProgVersion \<Rightarrow> getRootSignatureSizeInBytes pProgVersion)
       ((case recordPtr v r of Inl f \<Rightarrow> 0 | Inr pRecord \<Rightarrow> pRecord)
          + unat (mProgramIdentifierSize v))"

text \<open>
  What a record holds after it was applied, in the words of the spec: a record is
  "[opaque program identifier bytes][root/parameter block bytes ...]". \<open>recordBytes\<close> is
  the identifier of the record's program followed, when the bindings resolve, by the
  parameter block of its variable set; \<open>writeRecord\<close> puts these bytes at the record's
  address and leaves every other byte of the staging copy as it is.
\<close>

definition overwrite :: "u8 list \<Rightarrow> nat \<Rightarrow> u8 list \<Rightarrow> u8 list" where
  "overwrite mem dst bytes = take dst mem @ bytes @ drop (dst + length bytes) mem"

definition recordBytes :: "RtProgramVars \<Rightarrow> RtStateObject \<Rightarrow> sbt_record \<Rightarrow> u8 list" where
  "recordBytes v pRtso r =
     (case recordVersion v r of
        None \<Rightarrow> []
      | Some pProgVersion \<Rightarrow>
          map (GetShaderIdentifier pRtso (getExportName pProgVersion))
            [0..<unat (mProgramIdentifierSize v)]
          @ (case recordVars v r of
               None \<Rightarrow> []
             | Some vars \<Rightarrow>
                 if bindingsResolved vars
                 then map (rootParams vars) [0..<unat (getRootSignatureSizeInBytes pProgVersion)]
                 else []))"

definition writeRecord ::
  "RtProgramVars \<Rightarrow> RtStateObject \<Rightarrow> sbt_record \<Rightarrow> u8 list \<Rightarrow> u8 list" where
  "writeRecord v pRtso r mem =
     overwrite mem (case recordPtr v r of Inl f \<Rightarrow> 0 | Inr pRecord \<Rightarrow> pRecord)
       (recordBytes v pRtso r)"

text \<open>
  The state \<open>init\<close> leaves behind for \<open>G\<close> geometry instances, and that setting
  bindings keeps: the counts are those of the program set, every vector has its size
  and holds valid variable sets, a record holds the identifier and the parameter
  block of every program, and both buffers have \<open>(1 + Mi + H * G) * recordSize\<close> bytes,
  a number that fits in 32 bits. (\<open>create_layout\<close> below: \<open>create\<close> establishes it.)
\<close>

definition sbt_layout :: "u32 \<Rightarrow> RtProgramVars \<Rightarrow> bool" where
  "sbt_layout G v \<longleftrightarrow>
     (case getRayGenProgram (mpProgram v) of
        None \<Rightarrow> False
      | Some rayGen \<Rightarrow>
          list_all (\<lambda>sz. unat (mProgramIdentifierSize v) + unat sz \<le> unat (mRecordSize v))
            (allRootSigSizes (mpProgram v) rayGen)) \<and>
     mRayGenVars v \<noteq> None \<and>
     mHitProgCount v = getHitProgramCount (mpProgram v) \<and>
     mMissProgCount v = getMissProgramCount (mpProgram v) \<and>
     mFirstHitVarEntry v = 1 + mMissProgCount v \<and>
     length (mHitVars v) = unat (mHitProgCount v) \<and>
     list_all (\<lambda>row. length row = unat G \<and> list_all (\<lambda>p. p \<noteq> None) row) (mHitVars v) \<and>
     length (mMissVars v) = unat (mMissProgCount v) \<and>
     list_all (\<lambda>p. p \<noteq> None) (mMissVars v) \<and>
     mRecordSize v \<noteq> 0 \<and>
     length (mSbtData v)
       = (1 + unat (mMissProgCount v) + unat (mHitProgCount v) * unat G) * unat (mRecordSize v) \<and>
     length (mSbtData v) < 2 ^ 32 \<and>
     map_option getSize (mpSBT v) = Some (length (mSbtData v))"

subsection \<open>A small configuration\<close>

text \<open>
  The scenario of the spec: one hit group, one miss program, three geometry instances,
  identifiers of 32 bytes, parameter blocks of 64 bytes, records aligned to 64 bytes.
\<close>

definition ex_version :: RtProgramVersion where
  "ex_version = \<lparr>getRootSignatureSizeInBytes = 64, getExportName = ''main''\<rparr>"

definition ex_program :: RtProgram where
  "ex_program = \<lparr>getRayGenProgram = Some ex_version, getHitProgramCount = 1,
     getHitProgram = (\<lambda>_. ex_version), getMissProgramCount = 1,
     getMissProgram = (\<lambda>_. ex_version)\<rparr>"

definition ex_scene :: RtScene where
  "ex_scene = \<lparr>getGeometryCount = (\<lambda>_. 3)\<rparr>"

definition ex_device :: Device where
  "ex_device = \<lparr>GetShaderIdentifierSize = 32, SHADER_RECORD_BYTE_ALIGNMENT = 64,
     bufferCreateFails = (\<lambda>_. False)\<rparr>"

definition ex_vars :: RtProgramVars where
  "ex_vars = \<lparr>mpProgram = ex_program, mpScene = Some ex_scene,
     mRayGenVars = Some (GraphicsVars_create ex_version),
     mHitVars = [replicate 3 (Some (GraphicsVars_create ex_version))],
     mMissVars = [Some (GraphicsVars_create ex_version)],
     mHitProgCount = 1, mMissProgCount = 1, mFirstHitVarEntry = 2,
     mProgramIdentifierSize = 32, mRecordSize = 128,
     mpSBT = Some \<lparr>getSize = 640, contents = replicate 640 0\<rparr>,
     mSbtData = replicate 640 0\<rparr>"

text \<open>The same configuration without a miss program.\<close>

definition ex_nomiss_program :: RtProgram where
  "ex_nomiss_program = \<lparr>getRayGenProgram = Some ex_version, getHitProgramCount = 1,
     getHitProgram = (\<lambda>_. ex_version), getMissProgramCount = 0,
     getMissProgram = (\<lambda>_. ex_version)\<rparr>"

definition ex_nomiss_vars :: RtProgramVars where
  "ex_nomiss_vars = \<lparr>mpProgram = ex_nomiss_program, mpScene = Some ex_scene,
     mRayGenVars = Some (GraphicsVars_create ex_version),
     mHitVars = [replicate 3 (Some (GraphicsVars_create ex_version))],
     mMissVars = [],
     mHitProgCount = 1, mMissProgCount = 0, mFirstHitVarEntry = 1,
     mProgramIdentifierSize = 32, mRecordSize = 128,
     mpSBT = Some \<lparr>getSize = 512, contents = replicate 512 0\<rparr>,
     mSbtData = replicate 512 0\<rparr>"

text \<open>A configuration whose record size is zero: no identifier bytes, no parameters.\<close>

definition ex_zero_version :: RtProgramVersion where
  "ex_zero_version = \<lparr>getRootSignatureSizeInBytes = 0, getExportName = ''main''\<rparr>"

definition ex_zero_program :: RtProgram where
  "ex_zero_program = \<lparr>getRayGenProgram = Some ex_zero_version, getHitProgramCount = 0,
     getHitProgram = (\<lambda>_. ex_zero_version), getMissProgramCount = 0,
     getMissProgram = (\<lambda>_. ex_zero_version)\<rparr>"

definition ex_zero_device :: Device where
  "ex_zero_device = \<lparr>GetShaderIdentifierSize = 0, SHADER_RECORD_BYTE_ALIGNMENT = 64,
     bufferCreateFails = (\<lambda>_. False)\<rparr>"

text \<open>
  States for \<open>apply\<close>: an empty command list, a pipeline state object, the bindings
  of the ray-gen record unresolved, the bindings of hit record (0, 1) unresolved, and
  the scene grown to four geometry instances after \<open>init\<close>.
\<close>

definition ex_ctx :: RenderContext where
  "ex_ctx = \<lparr>commands = [], rootParamsBase = None\<rparr>"

definition ex_rtso :: RtStateObject where
  "ex_rtso = \<lparr>GetShaderIdentifier = (\<lambda>_ _. 7)\<rparr>"

definition ex_unresolved :: GraphicsVars where
  "ex_unresolved = \<lparr>bindingsResolved = False, rootParams = (\<lambda>_. 0)\<rparr>"

definition ex_vars_rayGen_unresolved :: RtProgramVars where
  "ex_vars_rayGen_unresolved = ex_vars\<lparr>mRayGenVars := Some ex_unresolved\<rparr>"

definition ex_vars_hit_unresolved :: RtProgramVars where
  "ex_vars_hit_unresolved =
     ex_vars\<lparr>mHitVars := [[Some (GraphicsVars_create ex_version), Some ex_unresolved,
                            Some (GraphicsVars_create ex_version)]]\<rparr>"

definition ex_scene_grown :: RtScene where
  "ex_scene_grown = \<lparr>getGeometryCount = (\<lambda>_. 4)\<rparr>"

definition ex_vars_grown :: RtProgramVars where
  "ex_vars_grown = ex_vars\<lparr>mpScene := Some ex_scene_grown\<rparr>"

text \<open>
  Variable sets with a parameter block of nines, the object with all of them bound,
  the same with the bindings of hit record (0, 1) unresolved, and the 128 bytes of a
  record that was applied: 32 identifier bytes, 64 parameter bytes, 32 bytes of padding.
\<close>

definition ex_bound :: GraphicsVars where
  "ex_bound = \<lparr>bindingsResolved = True, rootParams = (\<lambda>_. 9)\<rparr>"

definition ex_vars_bound :: RtProgramVars where
  "ex_vars_bound = ex_vars\<lparr>mRayGenVars := Some ex_bound,
     mHitVars := [[Some ex_bound, Some ex_bound, Some ex_bound]],
     mMissVars := [Some ex_bound]\<rparr>"

definition ex_vars_bound_unresolved :: RtProgramVars where
  "ex_vars_bound_unresolved =
     ex_vars_bound\<lparr>mHitVars := [[Some ex_bound, Some ex_unresolved, Some ex_bound]]\<rparr>"

definition ex_slot :: "u8 list" where
  "ex_slot = replicate 32 7 @ replicate 64 9 @ replicate 32 0"

section \<open>Properties\<close>

subsection \<open>Arithmetic on 32 bits\<close>

lemma unat_add_fits: "unat a + unat b < 2 ^ 32 \<Longrightarrow> unat (a + b) = unat a + unat b" for a b :: u32
  by (simp add: unat_word_ariths)

lemma unat_mult_fits: "unat a * unat b < 2 ^ 32 \<Longrightarrow> unat (a * b) = unat a * unat b" for a b :: u32
  by (simp add: unat_word_ariths)

lemma unat_succ_lt: "(i::u32) < n \<Longrightarrow> unat (i + 1) = Suc (unat i)"
proof -
  assume lt: "i < n"
  have "unat n < 2 ^ 32" using unsigned_less [of n] by simp
  moreover from lt have "unat i < unat n" by (simp add: word_less_nat_alt)
  ultimately have "unat i + 1 < 2 ^ 32" by simp
  then show ?thesis by (simp add: unat_word_ariths)
qed

lemma unat_of_nat_u32: "n < 2 ^ 32 \<Longrightarrow> unat (of_nat n :: u32) = n"
  by (simp add: unat_of_nat)

lemma max_zero_u32: "max (x::u32) 0 = x"
  by (simp add: max_def)

lemma le_mult_pos: "1 \<le> (r::nat) \<Longrightarrow> n \<le> n * r"
  by (cases r) simp_all

lemma index_fits:
  fixes R :: u32
  assumes le: "idx \<le> tot" and fits: "tot * unat R < 2 ^ 32" and R: "R \<noteq> 0"
  shows "idx * unat R < 2 ^ 32" and "idx < 2 ^ 32"
proof -
  have Rpos: "1 \<le> unat R" using R by (simp add: unat_gt_0 Suc_leI)
  have "idx * unat R \<le> tot * unat R" using le by (rule mult_le_mono1)
  then show prod: "idx * unat R < 2 ^ 32" using fits by (rule le_less_trans)
  have "idx \<le> idx * unat R" using Rpos by (rule le_mult_pos)
  then show "idx < 2 ^ 32" using prod by (rule le_less_trans)
qed

lemma miss_offset_nat:
  fixes missId Mi R :: u32
  assumes m: "missId < Mi" and fits: "(1 + unat Mi + HG) * unat R < 2 ^ 32" and R: "R \<noteq> 0"
  shows "unat ((1 + missId) * R) = (1 + unat missId) * unat R"
proof -
  from m have mlt: "unat missId < unat Mi" by (simp add: word_less_nat_alt)
  then have le: "1 + unat missId \<le> 1 + unat Mi + HG" by simp
  note b = index_fits [OF le fits R]
  have idx: "unat (1 + missId) = 1 + unat missId"
    using b(2) by (simp add: unat_add_fits)
  have "unat ((1 + missId) * R) = unat (1 + missId) * unat R"
    using b(1) by (intro unat_mult_fits) (simp only: idx)
  then show ?thesis by (simp only: idx)
qed

lemma hit_offset_nat:
  fixes hitId geomId Mi H G R :: u32
  assumes h: "hitId < H" and g: "geomId < G"
    and fits: "(1 + unat Mi + unat H * unat G) * unat R < 2 ^ 32" and R: "R \<noteq> 0"
  shows "unat (((1 + Mi) + H * geomId + hitId) * R)
           = ((1 + unat Mi) + unat H * unat geomId + unat hitId) * unat R"
proof -
  from h have hlt: "unat hitId < unat H" by (simp add: word_less_nat_alt)
  from g have glt: "unat geomId < unat G" by (simp add: word_less_nat_alt)
  have "unat H * unat geomId + unat hitId < unat H * Suc (unat geomId)"
    using hlt by simp
  also have "\<dots> \<le> unat H * unat G"
    using glt by (intro mult_le_mono2) simp
  finally have in_block: "unat H * unat geomId + unat hitId < unat H * unat G" .
  have le1: "1 + unat Mi \<le> 1 + unat Mi + unat H * unat G" by simp
  have le2: "unat H * unat geomId \<le> 1 + unat Mi + unat H * unat G"
    using in_block by linarith
  have le3: "1 + unat Mi + unat H * unat geomId \<le> 1 + unat Mi + unat H * unat G"
    using in_block by linarith
  have le4: "1 + unat Mi + unat H * unat geomId + unat hitId \<le> 1 + unat Mi + unat H * unat G"
    using in_block by linarith
  have one_mi: "unat (1 + Mi) = 1 + unat Mi"
    using index_fits(2) [OF le1 fits R] by (simp add: unat_add_fits)
  have hg: "unat (H * geomId) = unat H * unat geomId"
    using index_fits(2) [OF le2 fits R] by (rule unat_mult_fits)
  have s1: "unat ((1 + Mi) + H * geomId) = 1 + unat Mi + unat H * unat geomId"
    using index_fits(2) [OF le3 fits R] by (simp add: unat_add_fits one_mi hg)
  have idx: "unat ((1 + Mi) + H * geomId + hitId)
               = 1 + unat Mi + unat H * unat geomId + unat hitId"
    using index_fits(2) [OF le4 fits R] by (simp add: unat_add_fits s1)
  have "unat (((1 + Mi) + H * geomId + hitId) * R)
          = unat ((1 + Mi) + H * geomId + hitId) * unat R"
    using index_fits(1) [OF le4 fits R] by (intro unat_mult_fits) (simp only: idx)
  then show ?thesis by (simp only: idx)
qed

lemma numEntries_nat:
  fixes Mi H G R :: u32
  assumes fits: "(1 + unat Mi + unat H * unat G) * unat R < 2 ^ 32" and R: "R \<noteq> 0"
  shows "unat (numEntries Mi H G) = 1 + unat Mi + unat H * unat G"
    and "unat (numEntries Mi H G * R) = (1 + unat Mi + unat H * unat G) * unat R"
proof -
  have le0: "1 + unat Mi + unat H * unat G \<le> 1 + unat Mi + unat H * unat G" by simp
  note b = index_fits [OF le0 fits R]
  have hg: "unat (G * H) = unat G * unat H"
    using b(2) by (intro unat_mult_fits) (simp add: mult.commute)
  have s1: "unat (Mi + G * H) = unat Mi + unat G * unat H"
    using b(2) by (simp add: unat_add_fits hg mult.commute)
  have s2: "unat (Mi + G * H + 1) = unat Mi + unat G * unat H + 1"
    using b(2) by (simp add: unat_add_fits s1 mult.commute)
  show n: "unat (numEntries Mi H G) = 1 + unat Mi + unat H * unat G"
    by (simp add: numEntries_def Let_def s2 mult.commute)
  have "unat (numEntries Mi H G * R) = unat (numEntries Mi H G) * unat R"
    using b(1) by (intro unat_mult_fits) (simp only: n)
  then show "unat (numEntries Mi H G * R) = (1 + unat Mi + unat H * unat G) * unat R"
    by (simp only: n)
qed

lemma unat_mult_numEntries:
  fixes Mi H G R :: u32
  assumes fits: "(1 + unat Mi + unat H * unat G) * unat R < 2 ^ 32" and R: "R \<noteq> 0"
  shows "unat ((1 + Mi + H * G + 0) * R) = (1 + unat Mi + unat H * unat G) * unat R"
proof -
  have "(1 + Mi + H * G + 0) * R = numEntries Mi H G * R"
    by (simp add: numEntries_def Let_def algebra_simps)
  then show ?thesis using numEntries_nat(2) [OF fits R] by simp
qed

text \<open>
  The rounding of \<open>align_to\<close>: the result is always a multiple of the alignment, and
  where \<open>val + alignment - 1\<close> does not wrap it is the least multiple that is not below
  \<open>val\<close>.
\<close>

lemma unat_div_mult_u32:
  fixes x a :: u32
  shows "unat (x div a * a) = unat x div unat a * unat a"
proof -
  have "unat x div unat a * unat a \<le> unat x" by simp
  moreover have "unat x < 2 ^ 32" using unsigned_less [of x] by simp
  ultimately have "unat x div unat a * unat a < 2 ^ 32" by (rule le_less_trans)
  then have "unat (x div a) * unat a < 2 ^ 32" by (simp only: unat_div)
  then have "unat (x div a * a) = unat (x div a) * unat a" by (rule unat_mult_fits)
  then show ?thesis by (simp only: unat_div)
qed

lemma align_to_dvd: "unat a dvd unat (align_to a val)"
  by (simp add: align_to_def unat_div_mult_u32)

lemma align_to_nat:
  fixes a val :: u32
  assumes a: "a \<noteq> 0" and fits: "unat val + unat a - 1 < 2 ^ 32"
  shows "unat (align_to a val) = (unat val + unat a - 1) div unat a * unat a"
proof -
  have apos: "1 \<le> unat a" using a by (simp add: unat_gt_0 Suc_leI)
  have pred: "(of_nat (unat a - 1) :: u32) = a - 1"
    using apos by (simp add: of_nat_diff)
  have "(of_nat (unat val + (unat a - 1)) :: u32) = of_nat (unat val) + of_nat (unat a - 1)"
    by (rule of_nat_add)
  also have "\<dots> = val + a - 1"
    by (simp only: pred) simp
  finally have w: "val + a - 1 = of_nat (unat val + (unat a - 1))" by (rule sym)
  have "unat val + (unat a - 1) < 2 ^ 32" using fits apos by simp
  then have "unat (of_nat (unat val + (unat a - 1)) :: u32) = unat val + (unat a - 1)"
    by (rule unat_of_nat_u32)
  then have "unat (val + a - 1) = unat val + (unat a - 1)"
    by (simp only: w)
  also have "\<dots> = unat val + unat a - 1"
    using apos by simp
  finally show ?thesis by (simp only: align_to_def unat_div_mult_u32)
qed

lemma round_up_bounds:
  fixes x a :: nat
  assumes "1 \<le> a"
  shows "x \<le> (x + a - 1) div a * a" and "(x + a - 1) div a * a < x + a"
proof -
  have eq: "(x + a - 1) div a * a = (x + a - 1) - (x + a - 1) mod a"
    by (simp add: minus_mod_eq_div_mult)
  have "(x + a - 1) mod a < a" using assms by simp
  then have "(x + a - 1) mod a \<le> a - 1" by simp
  then show "x \<le> (x + a - 1) div a * a" using assms unfolding eq by simp
  show "(x + a - 1) div a * a < x + a" using assms unfolding eq by simp
qed

lemma align_to_bounds:
  fixes a val :: u32
  assumes a: "a \<noteq> 0" and fits: "unat val + unat a - 1 < 2 ^ 32"
  shows "unat val \<le> unat (align_to a val)" and "unat (align_to a val) < unat val + unat a"
proof -
  have apos: "1 \<le> unat a" using a by (simp add: unat_gt_0 Suc_leI)
  show "unat val \<le> unat (align_to a val)"
    using round_up_bounds(1) [OF apos] by (simp only: align_to_nat [OF a fits])
  show "unat (align_to a val) < unat val + unat a"
    using round_up_bounds(2) [OF apos] by (simp only: align_to_nat [OF a fits])
qed

subsection \<open>Loops\<close>

lemma for_loop_iterate:
  "for_loop i n body s = iterate body (map of_nat [unat i..<unat n]) s"
proof (induction i n body s rule: for_loop.induct)
  case (1 i n body s)
  show ?case
  proof (cases "i < n")
    case True
    then have lt: "unat i < unat n" by (simp add: word_less_nat_alt)
    have suc: "unat (i + 1) = Suc (unat i)" using True by (rule unat_succ_lt)
    have range: "map of_nat [unat i..<unat n] = i # map of_nat [unat (i + 1)..<unat n]"
      using lt by (simp add: upt_conv_Cons suc)
    show ?thesis
      using True "1.IH" [OF True]
      by (subst for_loop.simps, subst range)
         (auto split: sum.splits option.splits prod.splits)
  next
    case False
    then have "unat n \<le> unat i" by (simp add: word_less_nat_alt)
    then show ?thesis using False by (subst for_loop.simps) simp
  qed
qed

lemma for_loop_range: "for_loop 0 n body s = iterate body (u32_range n) s"
  by (simp add: for_loop_iterate u32_range_def)

lemma set_u32_range: "set (u32_range n) = {i. i < n}"
proof (rule set_eqI)
  fix i :: u32
  show "i \<in> set (u32_range n) \<longleftrightarrow> i \<in> {i. i < n}"
  proof
    assume "i \<in> set (u32_range n)"
    then obtain k where k: "k < unat n" and i: "i = of_nat k"
      by (auto simp: u32_range_def)
    have "unat n < 2 ^ 32" using unsigned_less [of n] by simp
    with k have "unat (of_nat k :: u32) = k" by (simp add: unat_of_nat)
    with k i show "i \<in> {i. i < n}" by (simp add: word_less_nat_alt)
  next
    assume "i \<in> {i. i < n}"
    then have "unat i < unat n" by (simp add: word_less_nat_alt)
    then have "unat i \<in> {0..<unat n}" by simp
    then have "of_nat (unat i) \<in> (of_nat ` {0..<unat n} :: u32 set)" by (rule imageI)
    then show "i \<in> set (u32_range n)" by (simp add: u32_range_def)
  qed
qed

lemma length_u32_range: "length (u32_range n) = unat n"
  by (simp add: u32_range_def)

lemma u32_range_split:
  assumes "G < G1"
  shows "\<exists>rest. u32_range G1 = u32_range G @ G # rest"
proof -
  from assms have lt: "unat G < unat G1" by (simp add: word_less_nat_alt)
  then have "[0..<unat G1] = [0..<unat G] @ unat G # [Suc (unat G)..<unat G1]"
    by (metis le0 upt_add_eq_append upt_conv_Cons le_add_diff_inverse less_imp_le_nat)
  then have "u32_range G1 = u32_range G @ of_nat (unat G) # map of_nat [Suc (unat G)..<unat G1]"
    by (simp add: u32_range_def)
  then show ?thesis by simp
qed

lemma iterate_append:
  "iterate body (xs @ ys) s =
     (case iterate body xs s of
        Inl f \<Rightarrow> Inl f
      | Inr (Some r, s') \<Rightarrow> Inr (Some r, s')
      | Inr (None, s') \<Rightarrow> iterate body ys s')"
  by (induction xs arbitrary: s) (auto split: sum.splits option.splits prod.splits)

lemma iterate_map: "iterate body (map g xs) s = iterate (\<lambda>x. body (g x)) xs s"
  by (induction xs arbitrary: s) (auto split: sum.splits option.splits prod.splits)

lemma iterate_nested:
  "iterate (\<lambda>h. iterate (\<lambda>i. body (mk h i)) is) hs s
     = iterate body (concat (map (\<lambda>h. map (\<lambda>i. mk h i) is) hs)) s"
proof (induction hs arbitrary: s)
  case Nil
  show ?case by simp
next
  case (Cons h hs)
  show ?case
    by (simp add: iterate_append iterate_map Cons.IH split: sum.splits option.splits prod.splits)
qed

subsection \<open>What init computes\<close>

lemma init_fields:
  assumes "init dev v0 = Inr (ok, v)"
  shows "ok = True"
    and "mpProgram v = mpProgram v0"
    and "mpScene v = mpScene v0"
    and "mHitProgCount v = getHitProgramCount (mpProgram v0)"
    and "mMissProgCount v = getMissProgramCount (mpProgram v0)"
    and "mFirstHitVarEntry v = kFirstMissSbtRecordIndex + getMissProgramCount (mpProgram v0)"
    and "mProgramIdentifierSize v = GetShaderIdentifierSize dev"
    and "mRecordSize v \<noteq> 0"
    and "SHADER_RECORD_BYTE_ALIGNMENT dev \<noteq> 0"
  using assms
  by (auto simp: init_def Let_def split: option.splits sum.splits prod.splits if_splits)

lemma create_init:
  "create dev pProgram pScene = Inr (Some v) \<Longrightarrow>
     init dev (RtProgramVars_new pProgram pScene) = Inr (True, v)"
  by (auto simp: create_def Let_def split: if_splits sum.splits prod.splits)

lemma fold_max_Max: "fold (\<lambda>x. max (f x)) xs (m::u32) = Max (set (m # map f xs))"
proof -
  have "fold (\<lambda>x. max (f x)) xs m = fold max (map f xs) m"
    by (simp add: fold_map comp_def)
  then show ?thesis by (simp only: Max.set_eq_fold)
qed

lemma iterate_init_hit_body:
  "iterate (init_hit_body pProgram rc) xs (m, hv) =
     Inr (None,
       (fold (\<lambda>h. max (getRootSignatureSizeInBytes (getHitProgram pProgram h))) xs m,
        fold (\<lambda>h l. l[unat h := replicate (unat rc)
                (Some (GraphicsVars_create (getHitProgram pProgram h)))]) xs hv))"
  by (induction xs arbitrary: m hv)
     (simp_all add: init_hit_body_def getSigSizeAndCreateVars_def map_replicate_const)

lemma iterate_init_miss_body:
  "iterate (init_miss_body pProgram) xs (m, mv) =
     Inr (None,
       (fold (\<lambda>h. max (getRootSignatureSizeInBytes (getMissProgram pProgram h))) xs m,
        fold (\<lambda>h l. l[unat h := Some (GraphicsVars_create (getMissProgram pProgram h))]) xs mv))"
  by (induction xs arbitrary: m mv)
     (simp_all add: init_miss_body_def getSigSizeAndCreateVars_def map_replicate_const)

lemma fold_update_upt:
  fixes f :: "u32 \<Rightarrow> 'a"
  assumes "n \<le> length l0" and "n < 2 ^ 32"
  shows "length (fold (\<lambda>x l. l[unat x := f x]) (map of_nat [0..<n]) l0) = length l0 \<and>
         (\<forall>k<n. fold (\<lambda>x l. l[unat x := f x]) (map of_nat [0..<n]) l0 ! k = f (of_nat k))"
  using assms
proof (induction n)
  case 0
  then show ?case by simp
next
  case (Suc n)
  have n: "unat (of_nat n :: u32) = n"
    using Suc.prems by (simp add: unat_of_nat)
  from Suc have IH: "length (fold (\<lambda>x l. l[unat x := f x]) (map of_nat [0..<n]) l0) = length l0"
    "\<forall>k<n. fold (\<lambda>x l. l[unat x := f x]) (map of_nat [0..<n]) l0 ! k = f (of_nat k)"
    by simp_all
  show ?case
    using IH Suc.prems by (auto simp: n nth_list_update less_Suc_eq)
qed

lemma fold_update_range:
  fixes f :: "u32 \<Rightarrow> 'a"
  assumes "length l0 = unat n"
  shows "fold (\<lambda>x l. l[unat x := f x]) (u32_range n) l0 = map f (u32_range n)"
proof -
  have lt: "unat n < 2 ^ 32" using unsigned_less [of n] by simp
  have le: "unat n \<le> length l0" using assms by simp
  note a = fold_update_upt [OF le lt, of f]
  show ?thesis
    unfolding u32_range_def
    by (rule nth_equalityI) (use a assms in auto)
qed

lemma init_result:
  assumes ini: "init dev v0 = Inr (ok, v)"
    and rg: "getRayGenProgram (mpProgram v0) = Some rayGen"
    and sc: "mpScene v0 = Some scene"
  shows "mRecordSize v = align_to (SHADER_RECORD_BYTE_ALIGNMENT dev)
           (GetShaderIdentifierSize dev + Max (set (allRootSigSizes (mpProgram v0) rayGen)))"
    and "mRayGenVars v = Some (GraphicsVars_create rayGen)"
    and "mHitVars v = map (\<lambda>h. replicate (unat (getGeometryCount scene (getHitProgramCount (mpProgram v0))))
            (Some (GraphicsVars_create (getHitProgram (mpProgram v0) h))))
          (u32_range (getHitProgramCount (mpProgram v0)))"
    and "mMissVars v = map (\<lambda>m. Some (GraphicsVars_create (getMissProgram (mpProgram v0) m)))
          (u32_range (getMissProgramCount (mpProgram v0)))"
    and "mpSBT v = Some \<lparr>getSize = unat (numEntries (getMissProgramCount (mpProgram v0))
              (getHitProgramCount (mpProgram v0))
              (getGeometryCount scene (getHitProgramCount (mpProgram v0))) * mRecordSize v),
            contents = replicate (unat (numEntries (getMissProgramCount (mpProgram v0))
              (getHitProgramCount (mpProgram v0))
              (getGeometryCount scene (getHitProgramCount (mpProgram v0))) * mRecordSize v)) 0\<rparr>"
    and "mSbtData v = replicate (unat (numEntries (getMissProgramCount (mpProgram v0))
              (getHitProgramCount (mpProgram v0))
              (getGeometryCount scene (getHitProgramCount (mpProgram v0))) * mRecordSize v)) 0"
proof -
  have mx: "fold (\<lambda>h. max (getRootSignatureSizeInBytes (getMissProgram p h))) ms
          (fold (\<lambda>h. max (getRootSignatureSizeInBytes (getHitProgram p h))) hs
             (getRootSignatureSizeInBytes rayGen))
        = Max (set (getRootSignatureSizeInBytes rayGen
             # map (\<lambda>h. getRootSignatureSizeInBytes (getHitProgram p h)) hs
             @ map (\<lambda>m. getRootSignatureSizeInBytes (getMissProgram p m)) ms))"
    for p hs ms
  proof -
    have "fold (\<lambda>h. max (getRootSignatureSizeInBytes (getMissProgram p h))) ms
          (fold (\<lambda>h. max (getRootSignatureSizeInBytes (getHitProgram p h))) hs
             (getRootSignatureSizeInBytes rayGen))
       = fold max (map (\<lambda>h. getRootSignatureSizeInBytes (getHitProgram p h)) hs
             @ map (\<lambda>m. getRootSignatureSizeInBytes (getMissProgram p m)) ms)
           (getRootSignatureSizeInBytes rayGen)"
      by (simp add: fold_map comp_def)
    then show ?thesis by (simp only: Max.set_eq_fold)
  qed
  note unfold = init_def for_loop_range iterate_init_hit_body iterate_init_miss_body
    getSigSizeAndCreateVars_def max_zero_u32 Buffer_create_def Let_def
  show "mRecordSize v = align_to (SHADER_RECORD_BYTE_ALIGNMENT dev)
           (GetShaderIdentifierSize dev + Max (set (allRootSigSizes (mpProgram v0) rayGen)))"
    using ini rg sc
    by (auto simp: unfold mx allRootSigSizes_def split: if_splits)
  show "mRayGenVars v = Some (GraphicsVars_create rayGen)"
    using ini rg sc by (auto simp: unfold split: if_splits)
  show "mHitVars v = map (\<lambda>h. replicate (unat (getGeometryCount scene (getHitProgramCount (mpProgram v0))))
            (Some (GraphicsVars_create (getHitProgram (mpProgram v0) h))))
          (u32_range (getHitProgramCount (mpProgram v0)))"
    using ini rg sc by (auto simp: unfold fold_update_range split: if_splits)
  show "mMissVars v = map (\<lambda>m. Some (GraphicsVars_create (getMissProgram (mpProgram v0) m)))
          (u32_range (getMissProgramCount (mpProgram v0)))"
    using ini rg sc by (auto simp: unfold fold_update_range split: if_splits)
  show "mpSBT v = Some \<lparr>getSize = unat (numEntries (getMissProgramCount (mpProgram v0))
              (getHitProgramCount (mpProgram v0))
              (getGeometryCount scene (getHitProgramCount (mpProgram v0))) * mRecordSize v),
            contents = replicate (unat (numEntries (getMissProgramCount (mpProgram v0))
              (getHitProgramCount (mpProgram v0))
              (getGeometryCount scene (getHitProgramCount (mpProgram v0))) * mRecordSize v)) 0\<rparr>"
    using ini rg sc by (auto simp: unfold split: if_splits)
  show "mSbtData v = replicate (unat (numEntries (getMissProgramCount (mpProgram v0))
              (getHitProgramCount (mpProgram v0))
              (getGeometryCount scene (getHitProgramCount (mpProgram v0))) * mRecordSize v)) 0"
    using ini rg sc by (auto simp: unfold split: if_splits)
qed

lemma init_cases:
  assumes rg: "getRayGenProgram (mpProgram v0) = Some rayGen"
    and sc: "mpScene v0 = Some scene"
    and al: "SHADER_RECORD_BYTE_ALIGNMENT dev \<noteq> 0"
  defines "R \<equiv> align_to (SHADER_RECORD_BYTE_ALIGNMENT dev)
           (GetShaderIdentifierSize dev + Max (set (allRootSigSizes (mpProgram v0) rayGen)))"
  defines "n \<equiv> unat (numEntries (getMissProgramCount (mpProgram v0))
              (getHitProgramCount (mpProgram v0))
              (getGeometryCount scene (getHitProgramCount (mpProgram v0))) * R)"
  shows "R = 0 \<Longrightarrow> init dev v0 = Inl AssertionFailed"
    and "R \<noteq> 0 \<Longrightarrow> bufferCreateFails dev n \<Longrightarrow> init dev v0 = Inl AssertionFailed"
    and "R \<noteq> 0 \<Longrightarrow> \<not> bufferCreateFails dev n \<Longrightarrow> \<exists>v. init dev v0 = Inr (True, v)"
proof -
  have mx: "fold (\<lambda>h. max (getRootSignatureSizeInBytes (getMissProgram p h))) ms
          (fold (\<lambda>h. max (getRootSignatureSizeInBytes (getHitProgram p h))) hs
             (getRootSignatureSizeInBytes rayGen))
        = Max (set (getRootSignatureSizeInBytes rayGen
             # map (\<lambda>h. getRootSignatureSizeInBytes (getHitProgram p h)) hs
             @ map (\<lambda>m. getRootSignatureSizeInBytes (getMissProgram p m)) ms))"
    for p hs ms
  proof -
    have "fold (\<lambda>h. max (getRootSignatureSizeInBytes (getMissProgram p h))) ms
          (fold (\<lambda>h. max (getRootSignatureSizeInBytes (getHitProgram p h))) hs
             (getRootSignatureSizeInBytes rayGen))
       = fold max (map (\<lambda>h. getRootSignatureSizeInBytes (getHitProgram p h)) hs
             @ map (\<lambda>m. getRootSignatureSizeInBytes (getMissProgram p m)) ms)
           (getRootSignatureSizeInBytes rayGen)"
      by (simp add: fold_map comp_def)
    then show ?thesis by (simp only: Max.set_eq_fold)
  qed
  note unfold = init_def for_loop_range iterate_init_hit_body iterate_init_miss_body
    getSigSizeAndCreateVars_def max_zero_u32 Buffer_create_def Let_def
  show "R = 0 \<Longrightarrow> init dev v0 = Inl AssertionFailed"
    using rg sc al by (simp add: unfold mx allRootSigSizes_def R_def)
  show "R \<noteq> 0 \<Longrightarrow> bufferCreateFails dev n \<Longrightarrow> init dev v0 = Inl AssertionFailed"
    using rg sc al by (simp add: unfold mx allRootSigSizes_def R_def n_def)
  show "R \<noteq> 0 \<Longrightarrow> \<not> bufferCreateFails dev n \<Longrightarrow> \<exists>v. init dev v0 = Inr (True, v)"
    using rg sc al by (simp add: unfold mx allRootSigSizes_def R_def n_def)
qed

lemma create_new_fields:
  assumes cr: "create dev pProgram (Some scene) = Inr (Some v)"
  shows "mpProgram v = pProgram" and "mpScene v = Some scene"
    and "mHitProgCount v = getHitProgramCount pProgram"
    and "mMissProgCount v = getMissProgramCount pProgram"
    and "mFirstHitVarEntry v = 1 + getMissProgramCount pProgram"
    and "mProgramIdentifierSize v = GetShaderIdentifierSize dev"
    and "mRecordSize v \<noteq> 0"
    and "SHADER_RECORD_BYTE_ALIGNMENT dev \<noteq> 0"
    and "getRayGenProgram pProgram \<noteq> None"
proof -
  note ini = create_init [OF cr]
  note f = init_fields [OF ini]
  show "mpProgram v = pProgram" using f(2) by (simp add: RtProgramVars_new_def)
  show "mpScene v = Some scene" using f(3) by (simp add: RtProgramVars_new_def)
  show "mHitProgCount v = getHitProgramCount pProgram"
    using f(4) by (simp add: RtProgramVars_new_def)
  show "mMissProgCount v = getMissProgramCount pProgram"
    using f(5) by (simp add: RtProgramVars_new_def)
  show "mFirstHitVarEntry v = 1 + getMissProgramCount pProgram"
    using f(6) by (simp add: RtProgramVars_new_def kFirstMissSbtRecordIndex_def)
  show "mProgramIdentifierSize v = GetShaderIdentifierSize dev" by (rule f(7))
  show "mRecordSize v \<noteq> 0" by (rule f(8))
  show "SHADER_RECORD_BYTE_ALIGNMENT dev \<noteq> 0" by (rule f(9))
  show "getRayGenProgram pProgram \<noteq> None"
    using cr by (auto simp: create_def checkParams_def split: if_splits)
qed

lemma create_result:
  assumes cr: "create dev pProgram (Some scene) = Inr (Some v)"
    and rg: "getRayGenProgram pProgram = Some rayGen"
  shows "mRecordSize v = align_to (SHADER_RECORD_BYTE_ALIGNMENT dev)
           (GetShaderIdentifierSize dev + Max (set (allRootSigSizes pProgram rayGen)))"
    and "mRayGenVars v = Some (GraphicsVars_create rayGen)"
    and "mHitVars v = map (\<lambda>h. replicate (unat (getGeometryCount scene (getHitProgramCount pProgram)))
            (Some (GraphicsVars_create (getHitProgram pProgram h))))
          (u32_range (getHitProgramCount pProgram))"
    and "mMissVars v = map (\<lambda>m. Some (GraphicsVars_create (getMissProgram pProgram m)))
          (u32_range (getMissProgramCount pProgram))"
    and "mpSBT v = Some \<lparr>getSize = unat (numEntries (getMissProgramCount pProgram)
              (getHitProgramCount pProgram)
              (getGeometryCount scene (getHitProgramCount pProgram)) * mRecordSize v),
            contents = replicate (unat (numEntries (getMissProgramCount pProgram)
              (getHitProgramCount pProgram)
              (getGeometryCount scene (getHitProgramCount pProgram)) * mRecordSize v)) 0\<rparr>"
    and "mSbtData v = replicate (unat (numEntries (getMissProgramCount pProgram)
              (getHitProgramCount pProgram)
              (getGeometryCount scene (getHitProgramCount pProgram)) * mRecordSize v)) 0"
proof -
  have rg': "getRayGenProgram (mpProgram (RtProgramVars_new pProgram (Some scene))) = Some rayGen"
    using rg by (simp add: RtProgramVars_new_def)
  have sc': "mpScene (RtProgramVars_new pProgram (Some scene)) = Some scene"
    by (simp add: RtProgramVars_new_def)
  have p: "mpProgram (RtProgramVars_new pProgram (Some scene)) = pProgram"
    by (simp add: RtProgramVars_new_def)
  note r = init_result [OF create_init [OF cr] rg' sc', unfolded p]
  show "mRecordSize v = align_to (SHADER_RECORD_BYTE_ALIGNMENT dev)
           (GetShaderIdentifierSize dev + Max (set (allRootSigSizes pProgram rayGen)))"
    by (rule r(1))
  show "mRayGenVars v = Some (GraphicsVars_create rayGen)" by (rule r(2))
  show "mHitVars v = map (\<lambda>h. replicate (unat (getGeometryCount scene (getHitProgramCount pProgram)))
            (Some (GraphicsVars_create (getHitProgram pProgram h))))
          (u32_range (getHitProgramCount pProgram))" by (rule r(3))
  show "mMissVars v = map (\<lambda>m. Some (GraphicsVars_create (getMissProgram pProgram m)))
          (u32_range (getMissProgramCount pProgram))" by (rule r(4))
  show "mpSBT v = Some \<lparr>getSize = unat (numEntries (getMissProgramCount pProgram)
              (getHitProgramCount pProgram)
              (getGeometryCount scene (getHitProgramCount pProgram)) * mRecordSize v),
            contents = replicate (unat (numEntries (getMissProgramCount pProgram)
              (getHitProgramCount pProgram)
              (getGeometryCount scene (getHitProgramCount pProgram)) * mRecordSize v)) 0\<rparr>"
    by (rule r(5))
  show "mSbtData v = replicate (unat (numEntries (getMissProgramCount pProgram)
              (getHitProgramCount pProgram)
              (getGeometryCount scene (getHitProgramCount pProgram)) * mRecordSize v)) 0"
    by (rule r(6))
qed

lemma create_record_size:
  assumes cr: "create dev pProgram (Some scene) = Inr (Some v)"
  shows "\<exists>rayGen. getRayGenProgram pProgram = Some rayGen \<and>
           mRecordSize v = align_to (SHADER_RECORD_BYTE_ALIGNMENT dev)
             (GetShaderIdentifierSize dev + Max (set (allRootSigSizes pProgram rayGen)))"
proof -
  from create_new_fields(9) [OF cr] obtain rayGen
    where rg: "getRayGenProgram pProgram = Some rayGen" by auto
  with create_result(1) [OF cr rg] show ?thesis by blast
qed

lemma create_record_size_bounds:
  assumes cr: "create dev pProgram (Some scene) = Inr (Some v)"
    and rg: "getRayGenProgram pProgram = Some rayGen"
    and fits: "unat (GetShaderIdentifierSize dev)
        + unat (Max (set (allRootSigSizes pProgram rayGen)))
        + unat (SHADER_RECORD_BYTE_ALIGNMENT dev) - 1 < 2 ^ 32"
  shows "unat (GetShaderIdentifierSize dev) + unat (Max (set (allRootSigSizes pProgram rayGen)))
           \<le> unat (mRecordSize v)"
    and "unat (mRecordSize v)
           < unat (GetShaderIdentifierSize dev) + unat (Max (set (allRootSigSizes pProgram rayGen)))
             + unat (SHADER_RECORD_BYTE_ALIGNMENT dev)"
proof -
  let ?A = "SHADER_RECORD_BYTE_ALIGNMENT dev"
  let ?id = "GetShaderIdentifierSize dev"
  let ?mx = "Max (set (allRootSigSizes pProgram rayGen))"
  have size: "mRecordSize v = align_to ?A (?id + ?mx)"
    by (rule create_result(1) [OF cr rg])
  have A: "?A \<noteq> 0" by (rule create_new_fields(8) [OF cr])
  then have apos: "1 \<le> unat ?A" by (simp add: unat_gt_0 Suc_leI)
  from fits apos have "unat ?id + unat ?mx < 2 ^ 32" by simp
  then have sum: "unat (?id + ?mx) = unat ?id + unat ?mx" by (rule unat_add_fits)
  have fits': "unat (?id + ?mx) + unat ?A - 1 < 2 ^ 32" using fits by (simp only: sum)
  show "unat ?id + unat ?mx \<le> unat (mRecordSize v)"
    using align_to_bounds(1) [OF A fits'] by (simp only: size sum)
  show "unat (mRecordSize v) < unat ?id + unat ?mx + unat ?A"
    using align_to_bounds(2) [OF A fits'] by (simp only: size sum)
qed

subsection \<open>Applying one record\<close>

lemma apply_hit_body_record:
  "apply_hit_body v pRtso h = (\<lambda>i. apply_record v pRtso (HitRecord h i))"
  by (intro ext) (simp add: apply_hit_body_def apply_record_def split: sum.splits)

lemma apply_miss_body_record:
  "apply_miss_body v pRtso = (\<lambda>m. apply_record v pRtso (MissRecord m))"
  by (intro ext) (simp add: apply_miss_body_def apply_record_def split: sum.splits)

lemma hit_loops_iterate:
  assumes "mpScene v = Some scene"
  shows "for_loop 0 hitCount (apply_hit_loop v pRtso hitCount) s
           = iterate (apply_record v pRtso)
               (hitRecords hitCount (getGeometryCount scene hitCount)) s"
proof -
  have "apply_hit_loop v pRtso hitCount
          = (\<lambda>h. iterate (\<lambda>i. apply_record v pRtso (HitRecord h i))
                    (u32_range (getGeometryCount scene hitCount)))"
    using assms
    by (intro ext) (simp add: apply_hit_loop_def for_loop_range apply_hit_body_record)
  then show ?thesis
    by (simp add: for_loop_range hitRecords_def iterate_nested)
qed

lemma miss_loop_iterate:
  "for_loop 0 missCount (apply_miss_body v pRtso) s
     = iterate (apply_record v pRtso) (missRecords missCount) s"
  by (simp add: for_loop_range missRecords_def iterate_map apply_miss_body_record)

lemma memcpy_fits:
  assumes "dst + n \<le> length mem"
  shows "\<exists>mem'. memcpy mem dst src n = Inr mem' \<and> length mem' = length mem"
  using assms by (simp add: memcpy_def)

lemma memcpy_overrun: "length mem < dst + n \<Longrightarrow> memcpy mem dst src n = Inl BufferOverrun"
  by (simp add: memcpy_def)

lemma commands_setRootParams:
  "commands (setRootParams ctx rootSig pBase) = commands ctx @ [SetRootParams rootSig pBase]"
  "rootParamsBase (setRootParams ctx rootSig pBase) = Some (rootSig, pBase)"
  by (simp_all add: setRootParams_def)

lemma applyRtProgramVars_fits:
  assumes fit: "pRecord + unat progIdSize + unat (getRootSignatureSizeInBytes pProgVersion)
                  \<le> length mem"
  shows "\<exists>mem' ctx'.
           applyRtProgramVars pRecord pProgVersion pRtso progIdSize (Some vars) (mem, ctx)
             = Inr (bindingsResolved vars, mem', ctx') \<and>
           length mem' = length mem \<and>
           commands ctx' = commands ctx
             @ [SetRootParams (getRootSignatureSizeInBytes pProgVersion)
                  (pRecord + unat progIdSize)]"
proof -
  from fit have "pRecord + unat progIdSize \<le> length mem" by simp
  from memcpy_fits [OF this]
  obtain mem1 where m1: "memcpy mem pRecord
        (GetShaderIdentifier pRtso (getExportName pProgVersion)) (unat progIdSize) = Inr mem1"
    and l1: "length mem1 = length mem" by blast
  let ?ctx1 = "setRootParams ctx (getRootSignatureSizeInBytes pProgVersion)
                 (pRecord + unat progIdSize)"
  show ?thesis
  proof (cases "bindingsResolved vars")
    case False
    then show ?thesis
      using m1 l1
      by (simp add: applyRtProgramVars_def applyProgramVarsCommon_def Let_def
          commands_setRootParams)
  next
    case True
    from fit l1 have "pRecord + unat progIdSize + unat (getRootSignatureSizeInBytes pProgVersion)
        \<le> length mem1" by simp
    from memcpy_fits [OF this]
    obtain mem2 where m2: "memcpy mem1 (pRecord + unat progIdSize) (rootParams vars)
          (unat (getRootSignatureSizeInBytes pProgVersion)) = Inr mem2"
      and l2: "length mem2 = length mem1" by blast
    show ?thesis
      using True m1 m2 l1 l2
      by (simp add: applyRtProgramVars_def applyProgramVarsCommon_def Let_def
          commands_setRootParams)
  qed
qed

lemma apply_record_step:
  assumes fits: "recordFits v r" and len: "length mem = length (mSbtData v)"
  shows "\<exists>mem' ctx'.
           apply_record v pRtso r (mem, ctx)
             = Inr (if recordResolved v r then None else Some False, (mem', ctx')) \<and>
           length mem' = length mem \<and>
           commands ctx' = commands ctx @ [recordCommand v r]"
proof -
  from fits obtain pRecord pProgVersion vars
    where p: "recordPtr v r = Inr pRecord"
      and ver: "recordVersion v r = Some pProgVersion"
      and vars: "recordVars v r = Some vars"
      and fit: "pRecord + unat (mProgramIdentifierSize v)
                  + unat (getRootSignatureSizeInBytes pProgVersion) \<le> length mem"
    by (auto simp: recordFits_def len split: sum.splits option.splits)
  from applyRtProgramVars_fits [OF fit, of pRtso vars ctx]
  obtain mem' ctx' where
    a: "applyRtProgramVars pRecord pProgVersion pRtso (mProgramIdentifierSize v) (Some vars)
          (mem, ctx) = Inr (bindingsResolved vars, mem', ctx')"
    and l: "length mem' = length mem"
    and c: "commands ctx' = commands ctx
             @ [SetRootParams (getRootSignatureSizeInBytes pProgVersion)
                  (pRecord + unat (mProgramIdentifierSize v))]"
    by blast
  have "apply_record v pRtso r (mem, ctx)
          = Inr (if recordResolved v r then None else Some False, (mem', ctx'))"
    using p ver vars a by (simp add: apply_record_def recordResolved_def)
  moreover have "commands ctx' = commands ctx @ [recordCommand v r]"
    using c p ver by (simp add: recordCommand_def)
  ultimately show ?thesis using l by blast
qed

lemma apply_record_overrun:
  assumes p: "recordPtr v r = Inr pRecord"
    and ver: "recordVersion v r = Some pProgVersion"
    and over: "length mem < pRecord + unat (mProgramIdentifierSize v)"
  shows "apply_record v pRtso r (mem, ctx) = Inl BufferOverrun"
  using p ver memcpy_overrun [OF over]
  by (simp add: apply_record_def applyRtProgramVars_def)

lemma iterate_apply_records:
  assumes "\<forall>r\<in>set recs. recordFits v r" and "length mem = length (mSbtData v)"
  shows "\<exists>mem' ctx'.
           iterate (apply_record v pRtso) recs (mem, ctx)
             = Inr (if list_all (recordResolved v) recs then None else Some False, (mem', ctx')) \<and>
           length mem' = length mem \<and>
           commands ctx' = commands ctx
             @ map (recordCommand v)
                 (take (Suc (length (takeWhile (recordResolved v) recs))) recs)"
  using assms
proof (induction recs arbitrary: mem ctx)
  case Nil
  then show ?case by simp
next
  case (Cons r rs)
  from Cons.prems have fits: "recordFits v r" and rest: "\<forall>r\<in>set rs. recordFits v r"
    by simp_all
  from apply_record_step [OF fits Cons.prems(2), of pRtso ctx]
  obtain mem1 ctx1 where
    s: "apply_record v pRtso r (mem, ctx)
          = Inr (if recordResolved v r then None else Some False, (mem1, ctx1))"
    and l1: "length mem1 = length mem"
    and c1: "commands ctx1 = commands ctx @ [recordCommand v r]"
    by blast
  show ?case
  proof (cases "recordResolved v r")
    case False
    then show ?thesis using s l1 c1 by simp
  next
    case True
    from l1 Cons.prems(2) have len1: "length mem1 = length (mSbtData v)" by simp
    from Cons.IH [OF rest len1, of ctx1]
    obtain mem' ctx' where
      i: "iterate (apply_record v pRtso) rs (mem1, ctx1)
            = Inr (if list_all (recordResolved v) rs then None else Some False, (mem', ctx'))"
      and l: "length mem' = length mem1"
      and c: "commands ctx' = commands ctx1
             @ map (recordCommand v)
                 (take (Suc (length (takeWhile (recordResolved v) rs))) rs)"
      by blast
    show ?thesis
      using True s i l l1 c c1 by simp
  qed
qed

lemma length_overwrite:
  "dst + length bytes \<le> length mem \<Longrightarrow> length (overwrite mem dst bytes) = length mem"
  by (simp add: overwrite_def)

lemma memcpy_overwrite:
  "dst + n \<le> length mem \<Longrightarrow> memcpy mem dst src n = Inr (overwrite mem dst (map src [0..<n]))"
  by (simp add: memcpy_def overwrite_def)

lemma overwrite_twice:
  assumes "dst + length a + length b \<le> length mem"
  shows "overwrite (overwrite mem dst a) (dst + length a) b = overwrite mem dst (a @ b)"
proof -
  from assms have d: "dst \<le> length mem" by simp
  have t: "take (dst + length a) (take dst mem @ a @ drop (dst + length a) mem)
             = take dst mem @ a"
    using d by simp
  have "drop (dst + length a + length b) (take dst mem @ a @ drop (dst + length a) mem)
          = drop (length b) (drop (dst + length a) mem)"
    using d by simp
  then have dr: "drop (dst + length a + length b) (take dst mem @ a @ drop (dst + length a) mem)
          = drop (dst + (length a + length b)) mem"
    by (simp add: add.commute add.left_commute)
  show ?thesis
    unfolding overwrite_def by (simp only: t dr length_append append_assoc)
qed

lemma applyRtProgramVars_writes:
  assumes fit: "pRecord + unat progIdSize + unat (getRootSignatureSizeInBytes pProgVersion)
                  \<le> length mem"
  shows "applyRtProgramVars pRecord pProgVersion pRtso progIdSize (Some vars) (mem, ctx)
           = Inr (bindingsResolved vars,
                  overwrite mem pRecord
                    (map (GetShaderIdentifier pRtso (getExportName pProgVersion))
                       [0..<unat progIdSize]
                     @ (if bindingsResolved vars
                        then map (rootParams vars)
                               [0..<unat (getRootSignatureSizeInBytes pProgVersion)]
                        else [])),
                  setRootParams ctx (getRootSignatureSizeInBytes pProgVersion)
                    (pRecord + unat progIdSize))"
proof -
  let ?ident = "map (GetShaderIdentifier pRtso (getExportName pProgVersion)) [0..<unat progIdSize]"
  let ?params = "map (rootParams vars) [0..<unat (getRootSignatureSizeInBytes pProgVersion)]"
  from fit have f1: "pRecord + unat progIdSize \<le> length mem" by simp
  have m1: "memcpy mem pRecord (GetShaderIdentifier pRtso (getExportName pProgVersion))
              (unat progIdSize) = Inr (overwrite mem pRecord ?ident)"
    by (rule memcpy_overwrite [OF f1])
  have l1: "length (overwrite mem pRecord ?ident) = length mem"
    using f1 by (simp add: length_overwrite)
  show ?thesis
  proof (cases "bindingsResolved vars")
    case False
    then show ?thesis
      using m1
      by (simp add: applyRtProgramVars_def applyProgramVarsCommon_def Let_def
          commands_setRootParams)
  next
    case True
    have f2: "pRecord + unat progIdSize + unat (getRootSignatureSizeInBytes pProgVersion)
        \<le> length (overwrite mem pRecord ?ident)"
      using fit by (simp only: l1)
    have m2: "memcpy (overwrite mem pRecord ?ident) (pRecord + unat progIdSize)
          (rootParams vars) (unat (getRootSignatureSizeInBytes pProgVersion))
        = Inr (overwrite (overwrite mem pRecord ?ident) (pRecord + unat progIdSize) ?params)"
      by (rule memcpy_overwrite [OF f2])
    have "pRecord + length ?ident + length ?params \<le> length mem" using fit by simp
    from overwrite_twice [OF this]
    have tw: "overwrite (overwrite mem pRecord ?ident) (pRecord + unat progIdSize) ?params
        = overwrite mem pRecord (?ident @ ?params)"
      by simp
    show ?thesis
      using True m1 m2
      by (simp add: applyRtProgramVars_def applyProgramVarsCommon_def Let_def
          commands_setRootParams tw)
  qed
qed

lemma apply_record_writes:
  assumes fits: "recordFits v r" and len: "length mem = length (mSbtData v)"
  shows "\<exists>ctx'.
           apply_record v pRtso r (mem, ctx)
             = Inr (if recordResolved v r then None else Some False,
                    (writeRecord v pRtso r mem, ctx')) \<and>
           length (writeRecord v pRtso r mem) = length mem \<and>
           commands ctx' = commands ctx @ [recordCommand v r]"
proof -
  from fits obtain pRecord pProgVersion vars
    where p: "recordPtr v r = Inr pRecord"
      and ver: "recordVersion v r = Some pProgVersion"
      and vars: "recordVars v r = Some vars"
      and fit: "pRecord + unat (mProgramIdentifierSize v)
                  + unat (getRootSignatureSizeInBytes pProgVersion) \<le> length mem"
    by (auto simp: recordFits_def len split: sum.splits option.splits)
  note a = applyRtProgramVars_writes [OF fit, of pRtso vars ctx]
  have w: "writeRecord v pRtso r mem
      = overwrite mem pRecord
          (map (GetShaderIdentifier pRtso (getExportName pProgVersion))
             [0..<unat (mProgramIdentifierSize v)]
           @ (if bindingsResolved vars
              then map (rootParams vars) [0..<unat (getRootSignatureSizeInBytes pProgVersion)]
              else []))"
    using p ver vars by (simp add: writeRecord_def recordBytes_def)
  have l: "length (writeRecord v pRtso r mem) = length mem"
    unfolding w using fit by (intro length_overwrite) simp
  let ?ctx' = "setRootParams ctx (getRootSignatureSizeInBytes pProgVersion)
                 (pRecord + unat (mProgramIdentifierSize v))"
  have "apply_record v pRtso r (mem, ctx)
          = Inr (if recordResolved v r then None else Some False,
                 (writeRecord v pRtso r mem, ?ctx'))"
    using p ver vars a by (simp add: apply_record_def recordResolved_def w)
  moreover have "commands ?ctx' = commands ctx @ [recordCommand v r]"
    using p ver by (simp add: recordCommand_def commands_setRootParams)
  ultimately show ?thesis using l by blast
qed

lemma iterate_apply_records_writes:
  assumes "\<forall>r\<in>set recs. recordFits v r" and "length mem = length (mSbtData v)"
  shows "\<exists>ctx'.
           iterate (apply_record v pRtso) recs (mem, ctx)
             = Inr (if list_all (recordResolved v) recs then None else Some False,
                    (fold (writeRecord v pRtso)
                       (take (Suc (length (takeWhile (recordResolved v) recs))) recs) mem,
                     ctx')) \<and>
           length (fold (writeRecord v pRtso)
                     (take (Suc (length (takeWhile (recordResolved v) recs))) recs) mem)
             = length mem \<and>
           commands ctx' = commands ctx
             @ map (recordCommand v)
                 (take (Suc (length (takeWhile (recordResolved v) recs))) recs)"
  using assms
proof (induction recs arbitrary: mem ctx)
  case Nil
  then show ?case by simp
next
  case (Cons r rs)
  from Cons.prems have fits: "recordFits v r" and rest: "\<forall>r\<in>set rs. recordFits v r"
    by simp_all
  from apply_record_writes [OF fits Cons.prems(2), of pRtso ctx]
  obtain ctx1 where
    s: "apply_record v pRtso r (mem, ctx)
          = Inr (if recordResolved v r then None else Some False,
                 (writeRecord v pRtso r mem, ctx1))"
    and l1: "length (writeRecord v pRtso r mem) = length mem"
    and c1: "commands ctx1 = commands ctx @ [recordCommand v r]"
    by blast
  show ?case
  proof (cases "recordResolved v r")
    case False
    then show ?thesis using s l1 c1 by simp
  next
    case True
    from l1 Cons.prems(2) have len1: "length (writeRecord v pRtso r mem) = length (mSbtData v)"
      by simp
    from Cons.IH [OF rest len1, of ctx1]
    obtain ctx' where
      i: "iterate (apply_record v pRtso) rs (writeRecord v pRtso r mem, ctx1)
            = Inr (if list_all (recordResolved v) rs then None else Some False,
                   (fold (writeRecord v pRtso)
                      (take (Suc (length (takeWhile (recordResolved v) rs))) rs)
                      (writeRecord v pRtso r mem), ctx'))"
      and l: "length (fold (writeRecord v pRtso)
                      (take (Suc (length (takeWhile (recordResolved v) rs))) rs)
                      (writeRecord v pRtso r mem)) = length (writeRecord v pRtso r mem)"
      and c: "commands ctx' = commands ctx1
             @ map (recordCommand v)
                 (take (Suc (length (takeWhile (recordResolved v) rs))) rs)"
      by blast
    show ?thesis
      using True s i l l1 c c1 by simp
  qed
qed

lemma upload_not_in_records: "UpdateBuffer \<notin> set (map (recordCommand v) rs)"
  by (induction rs) (simp_all add: recordCommand_def)

subsection \<open>The layout invariant\<close>

lemma layoutD:
  assumes "sbt_layout G v"
  shows "\<exists>rayGen. getRayGenProgram (mpProgram v) = Some rayGen \<and>
           (\<forall>sz\<in>set (allRootSigSizes (mpProgram v) rayGen).
              unat (mProgramIdentifierSize v) + unat sz \<le> unat (mRecordSize v))"
    and "mRayGenVars v \<noteq> None"
    and "mHitProgCount v = getHitProgramCount (mpProgram v)"
    and "mMissProgCount v = getMissProgramCount (mpProgram v)"
    and "mFirstHitVarEntry v = 1 + mMissProgCount v"
    and "length (mHitVars v) = unat (mHitProgCount v)"
    and "\<forall>row\<in>set (mHitVars v). length row = unat G \<and> (\<forall>p\<in>set row. p \<noteq> None)"
    and "length (mMissVars v) = unat (mMissProgCount v)"
    and "\<forall>p\<in>set (mMissVars v). p \<noteq> None"
    and "mRecordSize v \<noteq> 0"
    and "length (mSbtData v)
       = (1 + unat (mMissProgCount v) + unat (mHitProgCount v) * unat G) * unat (mRecordSize v)"
    and "(1 + unat (mMissProgCount v) + unat (mHitProgCount v) * unat G) * unat (mRecordSize v)
           < 2 ^ 32"
    and "map_option getSize (mpSBT v) = Some (length (mSbtData v))"
  using assms
  by (auto simp: sbt_layout_def list_all_iff split: option.splits)

lemma layout_rayGen_fits:
  assumes lay: "sbt_layout G v"
  shows "recordFits v RayGenRecord"
proof -
  note d = layoutD [OF lay]
  from d(1) obtain rayGen where rg: "getRayGenProgram (mpProgram v) = Some rayGen"
    and sz: "\<forall>sz\<in>set (allRootSigSizes (mpProgram v) rayGen).
              unat (mProgramIdentifierSize v) + unat sz \<le> unat (mRecordSize v)"
    by blast
  have "getRootSignatureSizeInBytes rayGen \<in> set (allRootSigSizes (mpProgram v) rayGen)"
    by (simp add: allRootSigSizes_def)
  with sz have one: "unat (mProgramIdentifierSize v) + unat (getRootSignatureSizeInBytes rayGen)
      \<le> unat (mRecordSize v)" by blast
  have "1 * unat (mRecordSize v)
          \<le> (1 + unat (mMissProgCount v) + unat (mHitProgCount v) * unat G) * unat (mRecordSize v)"
    by (intro mult_le_mono1) simp
  then have "unat (mRecordSize v) \<le> length (mSbtData v)"
    by (simp add: d(11))
  with one have "unat (mProgramIdentifierSize v) + unat (getRootSignatureSizeInBytes rayGen)
      \<le> length (mSbtData v)" by simp
  then show ?thesis
    using rg d(2)
    by (simp add: recordFits_def getRayGenRecordPtr_def kRayGenSbtRecordIndex_def
        getRayGenVars_def)
qed

lemma layout_hit_fits:
  assumes lay: "sbt_layout G v" and h: "h < mHitProgCount v" and i: "i < G"
  shows "recordFits v (HitRecord h i)"
    and "recordPtr v (HitRecord h i)
           = Inr ((1 + unat (mMissProgCount v) + unat (mHitProgCount v) * unat i + unat h)
                    * unat (mRecordSize v))"
proof -
  note d = layoutD [OF lay]
  let ?Mi = "unat (mMissProgCount v)" and ?H = "unat (mHitProgCount v)"
  let ?R = "unat (mRecordSize v)"
  from d(1) obtain rayGen where rg: "getRayGenProgram (mpProgram v) = Some rayGen"
    and sz: "\<forall>sz\<in>set (allRootSigSizes (mpProgram v) rayGen).
              unat (mProgramIdentifierSize v) + unat sz \<le> ?R"
    by blast
  have "h \<in> set (u32_range (getHitProgramCount (mpProgram v)))"
    using h by (simp add: set_u32_range d(3))
  then have "getRootSignatureSizeInBytes (getHitProgram (mpProgram v) h)
      \<in> set (allRootSigSizes (mpProgram v) rayGen)"
    by (simp add: allRootSigSizes_def)
  with sz have one: "unat (mProgramIdentifierSize v)
      + unat (getRootSignatureSizeInBytes (getHitProgram (mpProgram v) h)) \<le> ?R" by blast
  have ptr: "getHitRecordPtr v h i = Inr ((1 + ?Mi + ?H * unat i + unat h) * ?R)"
    using h hit_offset_nat [OF h i d(12) d(10)]
    by (simp add: getHitRecordPtr_def d(5))
  then show "recordPtr v (HitRecord h i) = Inr ((1 + ?Mi + ?H * unat i + unat h) * ?R)"
    by simp
  from h have hlt: "unat h < ?H" by (simp add: word_less_nat_alt)
  from i have ilt: "unat i < unat G" by (simp add: word_less_nat_alt)
  have "?H * unat i + unat h < ?H * Suc (unat i)" using hlt by simp
  also have "\<dots> \<le> ?H * unat G" using ilt by (intro mult_le_mono2) simp
  finally have "Suc (1 + ?Mi + ?H * unat i + unat h) \<le> 1 + ?Mi + ?H * unat G"
    by linarith
  then have "Suc (1 + ?Mi + ?H * unat i + unat h) * ?R \<le> (1 + ?Mi + ?H * unat G) * ?R"
    by (rule mult_le_mono1)
  then have slot: "(1 + ?Mi + ?H * unat i + unat h) * ?R + ?R \<le> length (mSbtData v)"
    by (simp add: d(11))
  have row: "mHitVars v ! unat h \<in> set (mHitVars v)"
    using hlt d(6) by simp
  with d(7) have rl: "length (mHitVars v ! unat h) = unat G"
    and rn: "\<forall>p\<in>set (mHitVars v ! unat h). p \<noteq> None" by blast+
  have "mHitVars v ! unat h ! unat i \<in> set (mHitVars v ! unat h)"
    using ilt rl by simp
  with rn have "mHitVars v ! unat h ! unat i \<noteq> None" by blast
  then have vars: "getHitVars v h i \<noteq> None"
    using hlt ilt d(6) rl by (simp add: getHitVars_def)
  show "recordFits v (HitRecord h i)"
    using ptr vars one slot by (simp add: recordFits_def)
qed

lemma layout_miss_fits:
  assumes lay: "sbt_layout G v" and m: "m < mMissProgCount v"
  shows "recordFits v (MissRecord m)"
    and "recordPtr v (MissRecord m) = Inr ((1 + unat m) * unat (mRecordSize v))"
proof -
  note d = layoutD [OF lay]
  let ?Mi = "unat (mMissProgCount v)" and ?H = "unat (mHitProgCount v)"
  let ?R = "unat (mRecordSize v)"
  from d(1) obtain rayGen where rg: "getRayGenProgram (mpProgram v) = Some rayGen"
    and sz: "\<forall>sz\<in>set (allRootSigSizes (mpProgram v) rayGen).
              unat (mProgramIdentifierSize v) + unat sz \<le> ?R"
    by blast
  have "m \<in> set (u32_range (getMissProgramCount (mpProgram v)))"
    using m by (simp add: set_u32_range d(4))
  then have "getRootSignatureSizeInBytes (getMissProgram (mpProgram v) m)
      \<in> set (allRootSigSizes (mpProgram v) rayGen)"
    by (simp add: allRootSigSizes_def)
  with sz have one: "unat (mProgramIdentifierSize v)
      + unat (getRootSignatureSizeInBytes (getMissProgram (mpProgram v) m)) \<le> ?R" by blast
  have ptr: "getMissRecordPtr v m = Inr ((1 + unat m) * ?R)"
    using m miss_offset_nat [OF m d(12) d(10)]
    by (simp add: getMissRecordPtr_def kFirstMissSbtRecordIndex_def mult.commute)
  from m have mlt: "unat m < ?Mi" by (simp add: word_less_nat_alt)
  then have "Suc (1 + unat m) \<le> 1 + ?Mi + ?H * unat G" by simp
  then have "Suc (1 + unat m) * ?R \<le> (1 + ?Mi + ?H * unat G) * ?R"
    by (rule mult_le_mono1)
  then have slot: "(1 + unat m) * ?R + ?R \<le> length (mSbtData v)"
    by (simp add: d(11))
  have "mMissVars v ! unat m \<in> set (mMissVars v)"
    using mlt d(8) by simp
  with d(9) have "mMissVars v ! unat m \<noteq> None" by blast
  then have vars: "getMissVars v m \<noteq> None"
    using mlt d(8) by (simp add: getMissVars_def)
  show "recordFits v (MissRecord m)"
    using ptr vars one slot by (simp add: recordFits_def)
  show "recordPtr v (MissRecord m) = Inr ((1 + unat m) * ?R)"
    using ptr by simp
qed

lemma set_hitRecords:
  "set (hitRecords hitCount geometryCount)
     = {HitRecord h i | h i. h < hitCount \<and> i < geometryCount}"
  by (auto simp: hitRecords_def set_u32_range)

lemma set_missRecords: "set (missRecords missCount) = {MissRecord m | m. m < missCount}"
  by (auto simp: missRecords_def set_u32_range)

lemma hitRecords_split:
  assumes G: "G < G1" and H: "0 < hitCount"
  shows "\<exists>rest. hitRecords hitCount G1
           = map (\<lambda>i. HitRecord 0 i) (u32_range G) @ HitRecord 0 G # rest"
proof -
  from u32_range_split [OF G] obtain r1 where r1: "u32_range G1 = u32_range G @ G # r1"
    by blast
  from H have "0 < unat hitCount" by (simp add: word_less_nat_alt)
  then have "[0..<unat hitCount] = 0 # [Suc 0..<unat hitCount]"
    by (simp add: upt_conv_Cons)
  then have "u32_range hitCount = 0 # map of_nat [Suc 0..<unat hitCount]"
    by (simp add: u32_range_def)
  then show ?thesis
    by (simp add: hitRecords_def r1)
qed

lemma layout_records_fit:
  assumes lay: "sbt_layout G v" and le: "G1 \<le> G"
  shows "\<forall>r\<in>set (hitRecords (mHitProgCount v) G1 @ missRecords (mMissProgCount v)).
           recordFits v r"
proof
  fix r
  assume "r \<in> set (hitRecords (mHitProgCount v) G1 @ missRecords (mMissProgCount v))"
  then consider h i where "r = HitRecord h i" "h < mHitProgCount v" "i < G1"
    | m where "r = MissRecord m" "m < mMissProgCount v"
    by (auto simp: set_hitRecords set_missRecords)
  then show "recordFits v r"
  proof cases
    case 1
    from 1(3) le have "i < G" by simp
    with 1 show ?thesis using layout_hit_fits(1) [OF lay] by simp
  next
    case 2
    then show ?thesis using layout_miss_fits(1) [OF lay] by simp
  qed
qed

lemma create_layout:
  assumes cr: "create dev pProgram (Some scene) = Inr (Some v)"
    and rg: "getRayGenProgram pProgram = Some rayGen"
    and nowrap: "unat (GetShaderIdentifierSize dev)
        + unat (Max (set (allRootSigSizes pProgram rayGen)))
        + unat (SHADER_RECORD_BYTE_ALIGNMENT dev) - 1 < 2 ^ 32"
    and fits: "(1 + unat (getMissProgramCount pProgram)
         + unat (getHitProgramCount pProgram)
           * unat (getGeometryCount scene (getHitProgramCount pProgram)))
        * unat (mRecordSize v) < 2 ^ 32"
  shows "sbt_layout (getGeometryCount scene (getHitProgramCount pProgram)) v"
proof -
  note f = create_new_fields [OF cr]
  note r = create_result [OF cr rg]
  let ?G = "getGeometryCount scene (getHitProgramCount pProgram)"
  have sizes: "\<forall>sz\<in>set (allRootSigSizes pProgram rayGen).
      unat (mProgramIdentifierSize v) + unat sz \<le> unat (mRecordSize v)"
  proof
    fix sz assume "sz \<in> set (allRootSigSizes pProgram rayGen)"
    then have "sz \<le> Max (set (allRootSigSizes pProgram rayGen))" by simp
    then have "unat sz \<le> unat (Max (set (allRootSigSizes pProgram rayGen)))"
      by (simp add: word_le_nat_alt)
    with create_record_size_bounds(1) [OF cr rg nowrap]
    show "unat (mProgramIdentifierSize v) + unat sz \<le> unat (mRecordSize v)"
      by (simp add: f(6))
  qed
  have len: "length (mSbtData v)
      = (1 + unat (getMissProgramCount pProgram) + unat (getHitProgramCount pProgram) * unat ?G)
          * unat (mRecordSize v)"
    using r(6) numEntries_nat(2) [OF fits f(7)] by simp
  have buf: "map_option getSize (mpSBT v) = Some (length (mSbtData v))"
    using r(5) r(6) by simp
  show ?thesis
    unfolding sbt_layout_def
    using sizes len buf fits f rg
    by (simp add: r(2) r(3) r(4) list_all_iff length_u32_range)
qed

subsection \<open>What apply does\<close>

lemma rtApply_iterate:
  assumes rg: "getRayGenProgram (mpProgram v) = Some rayGen"
    and sc: "mpScene v = Some scene"
  shows "rtApply pCtx pRtso v =
     (case applyRtProgramVars (getRayGenRecordPtr v) rayGen pRtso (mProgramIdentifierSize v)
             (getRayGenVars v) (mSbtData v, pCtx) of
        Inl f \<Rightarrow> Inl f
      | Inr (_, s0) \<Rightarrow>
     (case iterate (apply_record v pRtso)
             (hitRecords (getHitProgramCount (mpProgram v))
                (getGeometryCount scene (getHitProgramCount (mpProgram v)))
              @ missRecords (getMissProgramCount (mpProgram v))) s0 of
        Inl f \<Rightarrow> Inl f
      | Inr (Some r, (mem, ctx)) \<Rightarrow> Inr (r, v\<lparr>mSbtData := mem\<rparr>, ctx)
      | Inr (None, (mem, ctx)) \<Rightarrow>
     (case updateBuffer ctx (mpSBT v) mem of
        Inl f \<Rightarrow> Inl f
      | Inr (buf, ctx3) \<Rightarrow> Inr (True, v\<lparr>mSbtData := mem, mpSBT := Some buf\<rparr>, ctx3))))"
  using rg
  by (simp add: rtApply_def Let_def hit_loops_iterate [OF sc] miss_loop_iterate iterate_append
      split: sum.splits option.splits prod.splits)

lemma rtApply_result:
  assumes lay: "sbt_layout G v"
    and sc: "mpScene v = Some scene"
    and le: "getGeometryCount scene (getHitProgramCount (mpProgram v)) \<le> G"
  defines "recs \<equiv> hitRecords (getHitProgramCount (mpProgram v))
                     (getGeometryCount scene (getHitProgramCount (mpProgram v)))
                   @ missRecords (getMissProgramCount (mpProgram v))"
  shows "\<exists>mem' ctx' buf.
     length mem' = length (mSbtData v) \<and>
     mpSBT v = Some buf \<and>
     commands ctx' = commands pCtx
       @ map (recordCommand v)
           (RayGenRecord # take (Suc (length (takeWhile (recordResolved v) recs))) recs)
       @ (if list_all (recordResolved v) recs then [UpdateBuffer] else []) \<and>
     rtApply pCtx pRtso v =
       Inr (if list_all (recordResolved v) recs
            then (True, v\<lparr>mSbtData := mem',
                           mpSBT := Some (buf\<lparr>contents := take (getSize buf) mem'\<rparr>)\<rparr>, ctx')
            else (False, v\<lparr>mSbtData := mem'\<rparr>, ctx'))"
proof -
  note d = layoutD [OF lay]
  from d(1) obtain rayGen where rg: "getRayGenProgram (mpProgram v) = Some rayGen" by blast
  from d(2) obtain rgVars where rv: "getRayGenVars v = Some rgVars"
    by (auto simp: getRayGenVars_def)
  from d(13) obtain buf where buf: "mpSBT v = Some buf"
    and bsz: "getSize buf = length (mSbtData v)" by auto
  have "recordFits v RayGenRecord" by (rule layout_rayGen_fits [OF lay])
  then have fit0: "getRayGenRecordPtr v + unat (mProgramIdentifierSize v)
      + unat (getRootSignatureSizeInBytes rayGen) \<le> length (mSbtData v)"
    using rg by (simp add: recordFits_def)
  from applyRtProgramVars_fits [OF fit0, of pRtso rgVars pCtx]
  obtain mem0 ctx0 where
    a0: "applyRtProgramVars (getRayGenRecordPtr v) rayGen pRtso (mProgramIdentifierSize v)
          (Some rgVars) (mSbtData v, pCtx) = Inr (bindingsResolved rgVars, mem0, ctx0)"
    and l0: "length mem0 = length (mSbtData v)"
    and c0: "commands ctx0 = commands pCtx
             @ [SetRootParams (getRootSignatureSizeInBytes rayGen)
                  (getRayGenRecordPtr v + unat (mProgramIdentifierSize v))]"
    by blast
  have c0': "commands ctx0 = commands pCtx @ [recordCommand v RayGenRecord]"
    using c0 rg by (simp add: recordCommand_def)
  have fits: "\<forall>r\<in>set recs. recordFits v r"
    using layout_records_fit [OF lay le [unfolded d(3) [symmetric]]]
    by (simp add: recs_def d(3) d(4))
  from iterate_apply_records [OF fits l0, of pRtso ctx0]
  obtain mem' ctx1 where
    it: "iterate (apply_record v pRtso) recs (mem0, ctx0)
           = Inr (if list_all (recordResolved v) recs then None else Some False, (mem', ctx1))"
    and l1: "length mem' = length mem0"
    and c1: "commands ctx1 = commands ctx0
             @ map (recordCommand v)
                 (take (Suc (length (takeWhile (recordResolved v) recs))) recs)"
    by blast
  have len: "length mem' = length (mSbtData v)" using l1 l0 by simp
  show ?thesis
  proof (cases "list_all (recordResolved v) recs")
    case False
    have "rtApply pCtx pRtso v = Inr (False, v\<lparr>mSbtData := mem'\<rparr>, ctx1)"
      using False a0 it rv
      by (simp add: rtApply_iterate [OF rg sc] recs_def [symmetric])
    then show ?thesis
      using False len buf c1 c0' by auto
  next
    case True
    let ?ctx3 = "ctx1\<lparr>commands := commands ctx1 @ [UpdateBuffer]\<rparr>"
    have up: "updateBuffer ctx1 (mpSBT v) mem'
        = Inr (buf\<lparr>contents := take (getSize buf) mem'\<rparr>, ?ctx3)"
      using buf bsz len by (simp add: updateBuffer_def)
    have "rtApply pCtx pRtso v
        = Inr (True, v\<lparr>mSbtData := mem',
                 mpSBT := Some (buf\<lparr>contents := take (getSize buf) mem'\<rparr>)\<rparr>, ?ctx3)"
      using True a0 it rv up
      by (simp add: rtApply_iterate [OF rg sc] recs_def [symmetric])
    moreover have "commands ?ctx3 = commands pCtx
       @ map (recordCommand v)
           (RayGenRecord # take (Suc (length (takeWhile (recordResolved v) recs))) recs)
       @ [UpdateBuffer]"
      using c1 c0' by simp
    ultimately show ?thesis
      using True len buf by (intro exI [of _ mem'] exI [of _ ?ctx3] exI [of _ buf]) simp
  qed
qed

lemma rtApply_writes:
  fixes pRtso :: RtStateObject
  assumes lay: "sbt_layout G v"
    and sc: "mpScene v = Some scene"
    and le: "getGeometryCount scene (getHitProgramCount (mpProgram v)) \<le> G"
  defines "recs \<equiv> hitRecords (getHitProgramCount (mpProgram v))
                     (getGeometryCount scene (getHitProgramCount (mpProgram v)))
                   @ missRecords (getMissProgramCount (mpProgram v))"
  defines "written \<equiv> RayGenRecord # take (Suc (length (takeWhile (recordResolved v) recs))) recs"
  defines "mem' \<equiv> fold (writeRecord v pRtso) written (mSbtData v)"
  shows "\<exists>ctx'.
     rtApply pCtx pRtso v =
       Inr (list_all (recordResolved v) recs,
            v\<lparr>mSbtData := mem',
              mpSBT := (if list_all (recordResolved v) recs
                        then map_option (\<lambda>buf. buf\<lparr>contents := mem'\<rparr>) (mpSBT v)
                        else mpSBT v)\<rparr>,
            ctx') \<and>
     commands ctx' = commands pCtx @ map (recordCommand v) written
       @ (if list_all (recordResolved v) recs then [UpdateBuffer] else [])"
    and "length mem' = length (mSbtData v)"
proof -
  note d = layoutD [OF lay]
  from d(1) obtain rayGen where rg: "getRayGenProgram (mpProgram v) = Some rayGen" by blast
  from d(2) obtain rgVars where rv: "getRayGenVars v = Some rgVars"
    by (auto simp: getRayGenVars_def)
  from d(13) obtain buf where buf: "mpSBT v = Some buf"
    and bsz: "getSize buf = length (mSbtData v)" by auto
  have "recordFits v RayGenRecord" by (rule layout_rayGen_fits [OF lay])
  then have fit0: "getRayGenRecordPtr v + unat (mProgramIdentifierSize v)
      + unat (getRootSignatureSizeInBytes rayGen) \<le> length (mSbtData v)"
    using rg by (simp add: recordFits_def)
  let ?mem0 = "writeRecord v pRtso RayGenRecord (mSbtData v)"
  let ?ctx0 = "setRootParams pCtx (getRootSignatureSizeInBytes rayGen)
                 (getRayGenRecordPtr v + unat (mProgramIdentifierSize v))"
  have w0: "?mem0 = overwrite (mSbtData v) (getRayGenRecordPtr v)
          (map (GetShaderIdentifier pRtso (getExportName rayGen))
             [0..<unat (mProgramIdentifierSize v)]
           @ (if bindingsResolved rgVars
              then map (rootParams rgVars) [0..<unat (getRootSignatureSizeInBytes rayGen)]
              else []))"
    using rg rv by (simp add: writeRecord_def recordBytes_def)
  have a0: "applyRtProgramVars (getRayGenRecordPtr v) rayGen pRtso (mProgramIdentifierSize v)
          (Some rgVars) (mSbtData v, pCtx) = Inr (bindingsResolved rgVars, ?mem0, ?ctx0)"
    using applyRtProgramVars_writes [OF fit0, of pRtso rgVars pCtx] by (simp only: w0)
  have l0: "length ?mem0 = length (mSbtData v)"
    unfolding w0 using fit0 by (intro length_overwrite) simp
  have c0: "commands ?ctx0 = commands pCtx @ [recordCommand v RayGenRecord]"
    using rg by (simp add: recordCommand_def commands_setRootParams)
  have fits: "\<forall>r\<in>set recs. recordFits v r"
    using layout_records_fit [OF lay le [unfolded d(3) [symmetric]]]
    by (simp add: recs_def d(3) d(4))
  from iterate_apply_records_writes [OF fits l0, of pRtso ?ctx0]
  obtain ctx1 where
    it: "iterate (apply_record v pRtso) recs (?mem0, ?ctx0)
           = Inr (if list_all (recordResolved v) recs then None else Some False, (mem', ctx1))"
    and l1: "length mem' = length ?mem0"
    and c1: "commands ctx1 = commands ?ctx0
             @ map (recordCommand v)
                 (take (Suc (length (takeWhile (recordResolved v) recs))) recs)"
    by (auto simp: mem'_def written_def)
  show len: "length mem' = length (mSbtData v)" using l1 l0 by simp
  have cw: "commands ctx1 = commands pCtx @ map (recordCommand v) written"
    using c1 c0 by (simp add: written_def)
  show "\<exists>ctx'.
     rtApply pCtx pRtso v =
       Inr (list_all (recordResolved v) recs,
            v\<lparr>mSbtData := mem',
              mpSBT := (if list_all (recordResolved v) recs
                        then map_option (\<lambda>buf. buf\<lparr>contents := mem'\<rparr>) (mpSBT v)
                        else mpSBT v)\<rparr>,
            ctx') \<and>
     commands ctx' = commands pCtx @ map (recordCommand v) written
       @ (if list_all (recordResolved v) recs then [UpdateBuffer] else [])"
  proof (cases "list_all (recordResolved v) recs")
    case False
    have "rtApply pCtx pRtso v = Inr (False, v\<lparr>mSbtData := mem'\<rparr>, ctx1)"
      using False a0 it rv
      by (simp add: rtApply_iterate [OF rg sc] recs_def [symmetric])
    then show ?thesis
      using False cw by (intro exI [of _ ctx1]) simp
  next
    case True
    let ?ctx3 = "ctx1\<lparr>commands := commands ctx1 @ [UpdateBuffer]\<rparr>"
    have up: "updateBuffer ctx1 (mpSBT v) mem' = Inr (buf\<lparr>contents := mem'\<rparr>, ?ctx3)"
      using buf bsz len by (simp add: updateBuffer_def)
    have "rtApply pCtx pRtso v
        = Inr (True, v\<lparr>mSbtData := mem', mpSBT := Some (buf\<lparr>contents := mem'\<rparr>)\<rparr>, ?ctx3)"
      using True a0 it rv up
      by (simp add: rtApply_iterate [OF rg sc] recs_def [symmetric])
    then show ?thesis
      using True cw buf by (intro exI [of _ ?ctx3]) simp
  qed
qed

lemma rtApply_overrun:
  assumes lay: "sbt_layout G v"
    and sc: "mpScene v = Some scene"
    and gt: "G < getGeometryCount scene (getHitProgramCount (mpProgram v))"
    and H: "0 < getHitProgramCount (mpProgram v)"
    and idp: "0 < mProgramIdentifierSize v"
    and res: "\<forall>i. i < G \<longrightarrow> recordResolved v (HitRecord 0 i)"
  shows "recordPtr v (HitRecord 0 G) = Inr (length (mSbtData v))"
    and "rtApply pCtx pRtso v = Inl BufferOverrun"
proof -
  note d = layoutD [OF lay]
  from d(1) obtain rayGen where rg: "getRayGenProgram (mpProgram v) = Some rayGen" by blast
  from d(2) obtain rgVars where rv: "getRayGenVars v = Some rgVars"
    by (auto simp: getRayGenVars_def)
  have H': "0 < mHitProgCount v" using H by (simp add: d(3))
  have "getHitRecordPtr v 0 G
      = Inr (unat ((1 + mMissProgCount v + mHitProgCount v * G + 0) * mRecordSize v))"
    using H' by (simp add: getHitRecordPtr_def d(5))
  also have "\<dots> = Inr (length (mSbtData v))"
    by (simp only: unat_mult_numEntries [OF d(12) d(10)] d(11))
  finally show ptr: "recordPtr v (HitRecord 0 G) = Inr (length (mSbtData v))"
    by simp
  have "recordFits v RayGenRecord" by (rule layout_rayGen_fits [OF lay])
  then have fit0: "getRayGenRecordPtr v + unat (mProgramIdentifierSize v)
      + unat (getRootSignatureSizeInBytes rayGen) \<le> length (mSbtData v)"
    using rg by (simp add: recordFits_def)
  from applyRtProgramVars_fits [OF fit0, of pRtso rgVars pCtx]
  obtain mem0 ctx0 where
    a0: "applyRtProgramVars (getRayGenRecordPtr v) rayGen pRtso (mProgramIdentifierSize v)
          (Some rgVars) (mSbtData v, pCtx) = Inr (bindingsResolved rgVars, mem0, ctx0)"
    and l0: "length mem0 = length (mSbtData v)"
    by blast
  from hitRecords_split [OF gt H] obtain rest where
    split: "hitRecords (getHitProgramCount (mpProgram v))
              (getGeometryCount scene (getHitProgramCount (mpProgram v)))
            = map (\<lambda>i. HitRecord 0 i) (u32_range G) @ HitRecord 0 G # rest"
    by blast
  let ?pre = "map (\<lambda>i. HitRecord 0 i) (u32_range G)"
  have pre_fit: "\<forall>r\<in>set ?pre. recordFits v r"
    using layout_hit_fits(1) [OF lay H'] by (auto simp: set_u32_range)
  have pre_res: "list_all (recordResolved v) ?pre"
    using res by (auto simp: list_all_iff set_u32_range)
  from iterate_apply_records [OF pre_fit l0, of pRtso ctx0] pre_res
  obtain mem1 ctx1 where
    it: "iterate (apply_record v pRtso) ?pre (mem0, ctx0) = Inr (None, (mem1, ctx1))"
    and l1: "length mem1 = length mem0"
    by auto
  from idp have "0 < unat (mProgramIdentifierSize v)" by (simp add: word_less_nat_alt)
  then have over: "length mem1 < length (mSbtData v) + unat (mProgramIdentifierSize v)"
    using l1 l0 by simp
  have ver: "recordVersion v (HitRecord 0 G) = Some (getHitProgram (mpProgram v) 0)"
    by simp
  have bad: "apply_record v pRtso (HitRecord 0 G) (mem1, ctx1) = Inl BufferOverrun"
    by (rule apply_record_overrun [OF ptr ver over])
  have "iterate (apply_record v pRtso)
          (hitRecords (getHitProgramCount (mpProgram v))
             (getGeometryCount scene (getHitProgramCount (mpProgram v)))
           @ missRecords (getMissProgramCount (mpProgram v))) (mem0, ctx0)
        = Inl BufferOverrun"
    by (simp add: split iterate_append it bad)
  then show "rtApply pCtx pRtso v = Inl BufferOverrun"
    using a0 rv by (simp add: rtApply_iterate [OF rg sc])
qed

subsection \<open>The small configurations, evaluated\<close>

lemma ex_create: "create ex_device ex_program (Some ex_scene) = Inr (Some ex_vars)"
  by (simp add: create_def checkParams_def init_def RtProgramVars_new_def ex_program_def
      ex_scene_def ex_device_def ex_vars_def getSigSizeAndCreateVars_def for_loop.simps
      init_hit_body_def init_miss_body_def numEntries_def align_to_def Buffer_create_def
      kFirstMissSbtRecordIndex_def Let_def map_replicate_const ex_version_def)

lemma ex_rayGen: "getRayGenProgram ex_program = Some ex_version"
  by (simp add: ex_program_def)

lemma ex_zero_rayGen: "getRayGenProgram ex_zero_program = Some ex_zero_version"
  by (simp add: ex_zero_program_def)

lemma ex_u32_range: "u32_range 1 = [0]" "u32_range 3 = [0, 1, 2]" "u32_range 4 = [0, 1, 2, 3]"
  by (simp_all add: u32_range_def upt_conv_Cons)

lemma u32_less_3: "(i::u32) < 3 \<longleftrightarrow> i = 0 \<or> i = 1 \<or> i = 2"
proof -
  have "{i::u32. i < 3} = set (u32_range 3)" by (simp only: set_u32_range)
  then have "{i::u32. i < 3} = {0, 1, 2}" by (simp add: ex_u32_range)
  then show ?thesis by blast
qed

lemma ex_layout:
  "sbt_layout 3 ex_vars" "sbt_layout 3 ex_vars_rayGen_unresolved"
  "sbt_layout 3 ex_vars_hit_unresolved" "sbt_layout 3 ex_vars_grown"
  by (simp_all add: sbt_layout_def ex_vars_def ex_vars_rayGen_unresolved_def
      ex_vars_hit_unresolved_def ex_vars_grown_def ex_program_def ex_version_def
      allRootSigSizes_def ex_u32_range list_all_iff)

lemma ex_records:
  "hitRecords 1 3 @ missRecords 1
     = [HitRecord 0 0, HitRecord 0 1, HitRecord 0 2, MissRecord 0]"
  by (simp add: hitRecords_def missRecords_def ex_u32_range)

lemma ex_counts:
  "getHitProgramCount ex_program = 1" "getMissProgramCount ex_program = 1"
  "getGeometryCount ex_scene n = 3" "getGeometryCount ex_scene_grown n = 4"
  "mpProgram ex_vars = ex_program" "mpScene ex_vars = Some ex_scene"
  "mpProgram ex_vars_rayGen_unresolved = ex_program"
  "mpScene ex_vars_rayGen_unresolved = Some ex_scene"
  "mpProgram ex_vars_hit_unresolved = ex_program"
  "mpScene ex_vars_hit_unresolved = Some ex_scene"
  "mpProgram ex_vars_grown = ex_program"
  "mpScene ex_vars_grown = Some ex_scene_grown"
  by (simp_all add: ex_program_def ex_scene_def ex_scene_grown_def ex_vars_def
      ex_vars_rayGen_unresolved_def ex_vars_hit_unresolved_def ex_vars_grown_def)

lemma ex_commands:
  "recordCommand ex_vars_hit_unresolved RayGenRecord = SetRootParams 64 32"
  "recordCommand ex_vars_hit_unresolved (HitRecord 0 0) = SetRootParams 64 288"
  "recordCommand ex_vars_hit_unresolved (HitRecord 0 1) = SetRootParams 64 416"
  "recordCommand ex_vars_rayGen_unresolved RayGenRecord = SetRootParams 64 32"
  "recordCommand ex_vars_rayGen_unresolved (HitRecord 0 0) = SetRootParams 64 288"
  "recordCommand ex_vars_rayGen_unresolved (HitRecord 0 1) = SetRootParams 64 416"
  "recordCommand ex_vars_rayGen_unresolved (HitRecord 0 2) = SetRootParams 64 544"
  "recordCommand ex_vars_rayGen_unresolved (MissRecord 0) = SetRootParams 64 160"
  by (simp_all add: recordCommand_def getRayGenRecordPtr_def getHitRecordPtr_def
      getMissRecordPtr_def kRayGenSbtRecordIndex_def kFirstMissSbtRecordIndex_def
      ex_vars_hit_unresolved_def ex_vars_rayGen_unresolved_def ex_vars_def ex_program_def
      ex_version_def)

lemma ex_resolved:
  "recordResolved ex_vars_hit_unresolved (HitRecord 0 0)"
  "\<not> recordResolved ex_vars_hit_unresolved (HitRecord 0 1)"
  "\<not> recordResolved ex_vars_rayGen_unresolved RayGenRecord"
  "recordResolved ex_vars_rayGen_unresolved (HitRecord 0 0)"
  "recordResolved ex_vars_rayGen_unresolved (HitRecord 0 1)"
  "recordResolved ex_vars_rayGen_unresolved (HitRecord 0 2)"
  "recordResolved ex_vars_rayGen_unresolved (MissRecord 0)"
  "recordResolved ex_vars_grown (HitRecord 0 0)"
  "recordResolved ex_vars_grown (HitRecord 0 1)"
  "recordResolved ex_vars_grown (HitRecord 0 2)"
  by (simp_all add: recordResolved_def getHitVars_def getMissVars_def getRayGenVars_def
      ex_vars_hit_unresolved_def ex_vars_rayGen_unresolved_def ex_vars_grown_def ex_vars_def
      ex_unresolved_def GraphicsVars_create_def)

lemma ex_rayGen_apply_false:
  "(case applyRtProgramVars (getRayGenRecordPtr ex_vars_rayGen_unresolved) ex_version ex_rtso
           (mProgramIdentifierSize ex_vars_rayGen_unresolved)
           (getRayGenVars ex_vars_rayGen_unresolved)
           (mSbtData ex_vars_rayGen_unresolved, ex_ctx) of
      Inl f \<Rightarrow> None
    | Inr (ok, s) \<Rightarrow> Some ok) = Some False"
  by (simp add: applyRtProgramVars_def applyProgramVarsCommon_def memcpy_def setRootParams_def
      getRayGenRecordPtr_def getRayGenVars_def kRayGenSbtRecordIndex_def
      ex_vars_rayGen_unresolved_def ex_vars_def ex_unresolved_def ex_ctx_def Let_def)

lemma ex_nomiss_create:
  "create ex_device ex_nomiss_program (Some ex_scene) = Inr (Some ex_nomiss_vars)"
  by (simp add: create_def checkParams_def init_def RtProgramVars_new_def ex_nomiss_program_def
      ex_scene_def ex_device_def ex_nomiss_vars_def getSigSizeAndCreateVars_def for_loop.simps
      init_hit_body_def init_miss_body_def numEntries_def align_to_def Buffer_create_def
      kFirstMissSbtRecordIndex_def Let_def map_replicate_const ex_version_def)

lemma ex_bound_layout: "sbt_layout 3 ex_vars_bound" "sbt_layout 3 ex_vars_bound_unresolved"
  by (simp_all add: sbt_layout_def ex_vars_def ex_vars_bound_def ex_vars_bound_unresolved_def
      ex_program_def ex_version_def allRootSigSizes_def ex_u32_range list_all_iff)

lemma ex_bound_fields:
  "mpProgram ex_vars_bound = ex_program" "mpScene ex_vars_bound = Some ex_scene"
  "mpProgram ex_vars_bound_unresolved = ex_program"
  "mpScene ex_vars_bound_unresolved = Some ex_scene"
  "mSbtData ex_vars_bound = replicate 640 0" "mSbtData ex_vars_bound_unresolved = replicate 640 0"
  "mpSBT ex_vars_bound = Some \<lparr>getSize = 640, contents = replicate 640 0\<rparr>"
  "mpSBT ex_vars_bound_unresolved = Some \<lparr>getSize = 640, contents = replicate 640 0\<rparr>"
  by (simp_all add: ex_vars_def ex_vars_bound_def ex_vars_bound_unresolved_def)

lemma ex_bound_resolved:
  "recordResolved ex_vars_bound (HitRecord 0 0)" "recordResolved ex_vars_bound (HitRecord 0 1)"
  "recordResolved ex_vars_bound (HitRecord 0 2)" "recordResolved ex_vars_bound (MissRecord 0)"
  "recordResolved ex_vars_bound_unresolved (HitRecord 0 0)"
  "\<not> recordResolved ex_vars_bound_unresolved (HitRecord 0 1)"
  by (simp_all add: recordResolved_def getHitVars_def getMissVars_def
      ex_vars_bound_def ex_vars_bound_unresolved_def ex_vars_def ex_unresolved_def ex_bound_def)

lemma ex_bound_commands:
  "recordCommand ex_vars_bound RayGenRecord = SetRootParams 64 32"
  "recordCommand ex_vars_bound (HitRecord 0 0) = SetRootParams 64 288"
  "recordCommand ex_vars_bound (HitRecord 0 1) = SetRootParams 64 416"
  "recordCommand ex_vars_bound (HitRecord 0 2) = SetRootParams 64 544"
  "recordCommand ex_vars_bound (MissRecord 0) = SetRootParams 64 160"
  "recordCommand ex_vars_bound_unresolved RayGenRecord = SetRootParams 64 32"
  "recordCommand ex_vars_bound_unresolved (HitRecord 0 0) = SetRootParams 64 288"
  "recordCommand ex_vars_bound_unresolved (HitRecord 0 1) = SetRootParams 64 416"
  by (simp_all add: recordCommand_def getRayGenRecordPtr_def getHitRecordPtr_def
      getMissRecordPtr_def kRayGenSbtRecordIndex_def kFirstMissSbtRecordIndex_def
      ex_vars_bound_def ex_vars_bound_unresolved_def ex_vars_def ex_program_def ex_version_def)

lemma ex_staging_success:
  "fold (writeRecord ex_vars_bound ex_rtso)
     [RayGenRecord, HitRecord 0 0, HitRecord 0 1, HitRecord 0 2, MissRecord 0] (replicate 640 0)
   = ex_slot @ ex_slot @ ex_slot @ ex_slot @ ex_slot"
  by code_simp

lemma ex_staging_failure:
  "fold (writeRecord ex_vars_bound_unresolved ex_rtso)
     [RayGenRecord, HitRecord 0 0, HitRecord 0 1] (replicate 640 0)
   = ex_slot @ replicate 128 0 @ ex_slot @ replicate 32 7 @ replicate 96 0 @ replicate 128 0"
  by code_simp

section \<open>The claims\<close>

text \<open>
  C1. On the object that \<open>create\<close> returns for a program set and a scene, the accessors
  return the addresses of the wire layout: the ray-gen record at offset 0; for every
  miss index below the program set's miss count, miss record \<open>missId\<close> at
  \<open>(1 + missId) * recordSize\<close>; for every hit index below the program set's hit count
  and every geometry index below the scene's geometry count, hit record
  \<open>(hitId, geomId)\<close> at
  \<open>((1 + missProgramCount) + hitProgramCount * geomId + hitId) * recordSize\<close>, where
  \<open>recordSize\<close> is the aligned size that \<open>init\<close> computes. Each of the three holds on its
  own, also where there is no miss program, no hit program or no geometry. The
  products are those of the source, on 32 bits; where the whole table fits in 32 bits
  they are the products of natural numbers.
\<close>

theorem record_ptr_offsets:
  assumes cr: "create dev pProgram (Some scene) = Inr (Some v)"
  shows "getRayGenRecordPtr v = 0 \<and>
     (\<forall>missId. missId < getMissProgramCount pProgram \<longrightarrow>
        getMissRecordPtr v missId = Inr (unat ((1 + missId) * mRecordSize v))) \<and>
     (\<forall>hitId geomId. hitId < getHitProgramCount pProgram \<and>
          geomId < getGeometryCount scene (getHitProgramCount pProgram) \<longrightarrow>
        getHitRecordPtr v hitId geomId =
          Inr (unat (((1 + getMissProgramCount pProgram)
                       + getHitProgramCount pProgram * geomId + hitId) * mRecordSize v))) \<and>
     (\<exists>rayGen. getRayGenProgram pProgram = Some rayGen \<and>
        mRecordSize v = align_to (SHADER_RECORD_BYTE_ALIGNMENT dev)
          (GetShaderIdentifierSize dev + Max (set (allRootSigSizes pProgram rayGen)))) \<and>
     ((1 + unat (getMissProgramCount pProgram)
         + unat (getHitProgramCount pProgram)
           * unat (getGeometryCount scene (getHitProgramCount pProgram)))
        * unat (mRecordSize v) < 2 ^ 32 \<longrightarrow>
      (\<forall>missId. missId < getMissProgramCount pProgram \<longrightarrow>
         getMissRecordPtr v missId = Inr ((1 + unat missId) * unat (mRecordSize v))) \<and>
      (\<forall>hitId geomId. hitId < getHitProgramCount pProgram \<and>
          geomId < getGeometryCount scene (getHitProgramCount pProgram) \<longrightarrow>
         getHitRecordPtr v hitId geomId =
           Inr (((1 + unat (getMissProgramCount pProgram))
                   + unat (getHitProgramCount pProgram) * unat geomId + unat hitId)
                  * unat (mRecordSize v))))"
proof -
  note f = create_new_fields [OF cr]
  let ?Mi = "getMissProgramCount pProgram" and ?H = "getHitProgramCount pProgram"
  let ?G = "getGeometryCount scene (getHitProgramCount pProgram)"
  have rg: "getRayGenRecordPtr v = 0"
    by (simp add: getRayGenRecordPtr_def kRayGenSbtRecordIndex_def)
  have ms: "getMissRecordPtr v missId = Inr (unat ((1 + missId) * mRecordSize v))"
    if "missId < ?Mi" for missId
    using that
    by (simp add: getMissRecordPtr_def kFirstMissSbtRecordIndex_def mult.commute f(4))
  have ht: "getHitRecordPtr v hitId geomId =
       Inr (unat (((1 + ?Mi) + ?H * geomId + hitId) * mRecordSize v))"
    if "hitId < ?H" for hitId geomId
    using that by (simp add: getHitRecordPtr_def f(3) f(4) f(5))
  have msn: "getMissRecordPtr v missId = Inr ((1 + unat missId) * unat (mRecordSize v))"
    if "missId < ?Mi" and "(1 + unat ?Mi + unat ?H * unat ?G) * unat (mRecordSize v) < 2 ^ 32"
    for missId
    using ms [OF that(1)] miss_offset_nat [OF that(1) that(2) f(7)] by simp
  have htn: "getHitRecordPtr v hitId geomId =
       Inr (((1 + unat ?Mi) + unat ?H * unat geomId + unat hitId) * unat (mRecordSize v))"
    if "hitId < ?H" and "geomId < ?G"
      and "(1 + unat ?Mi + unat ?H * unat ?G) * unat (mRecordSize v) < 2 ^ 32"
    for hitId geomId
    using ht [OF that(1)] hit_offset_nat [OF that(1) that(2) that(3) f(7)] by simp
  show ?thesis
    using rg ms ht msn htn create_record_size [OF cr] by blast
qed

theorem record_ptr_offsets_witness:
  "create ex_device ex_program (Some ex_scene) = Inr (Some ex_vars) \<and>
   getRayGenRecordPtr ex_vars = 0 \<and>
   getMissRecordPtr ex_vars 0 = Inr 128 \<and>
   getHitRecordPtr ex_vars 0 0 = Inr 256 \<and>
   getHitRecordPtr ex_vars 0 1 = Inr 384 \<and>
   getHitRecordPtr ex_vars 0 2 = Inr 512 \<and>
   mRecordSize ex_vars = 128 \<and>
   create ex_device ex_nomiss_program (Some ex_scene) = Inr (Some ex_nomiss_vars) \<and>
   getRayGenRecordPtr ex_nomiss_vars = 0 \<and>
   getHitRecordPtr ex_nomiss_vars 0 2 = Inr 384"
proof -
  have c: "getHitProgramCount ex_nomiss_program = 1" "getMissProgramCount ex_nomiss_program = 0"
    by (simp_all add: ex_nomiss_program_def)
  have r: "mRecordSize ex_vars = 128" "mRecordSize ex_nomiss_vars = 128"
    by (simp_all add: ex_vars_def ex_nomiss_vars_def)
  show ?thesis
    using record_ptr_offsets [OF ex_create] record_ptr_offsets [OF ex_nomiss_create]
      ex_create ex_nomiss_create
    by (simp add: ex_counts c r)
qed

text \<open>
  C2. The record size of an object that \<open>create\<close> returned is \<open>align_to\<close> of the
  alignment and the sum of the identifier size and the largest root-signature size
  among the ray-gen program, every hit program and every miss program. It is a
  multiple of the alignment; where the sum and the rounding do not wrap it is at least
  the identifier size plus the largest parameter block and less than one alignment
  above it; and every accessor multiplies a record index by this one value.
\<close>

theorem record_size_aligned_max:
  assumes cr: "create dev pProgram (Some scene) = Inr (Some v)"
    and rg: "getRayGenProgram pProgram = Some rayGen"
  shows "mRecordSize v = align_to (SHADER_RECORD_BYTE_ALIGNMENT dev)
           (GetShaderIdentifierSize dev + Max (set (allRootSigSizes pProgram rayGen))) \<and>
     unat (SHADER_RECORD_BYTE_ALIGNMENT dev) dvd unat (mRecordSize v) \<and>
     (unat (GetShaderIdentifierSize dev) + unat (Max (set (allRootSigSizes pProgram rayGen)))
        + unat (SHADER_RECORD_BYTE_ALIGNMENT dev) - 1 < 2 ^ 32 \<longrightarrow>
      unat (GetShaderIdentifierSize dev) + unat (Max (set (allRootSigSizes pProgram rayGen)))
        \<le> unat (mRecordSize v) \<and>
      unat (mRecordSize v)
        < unat (GetShaderIdentifierSize dev) + unat (Max (set (allRootSigSizes pProgram rayGen)))
          + unat (SHADER_RECORD_BYTE_ALIGNMENT dev)) \<and>
     getRayGenRecordPtr v = unat (0 * mRecordSize v) \<and>
     (\<forall>missId. missId < mMissProgCount v \<longrightarrow>
        getMissRecordPtr v missId = Inr (unat ((1 + missId) * mRecordSize v))) \<and>
     (\<forall>hitId geomId. hitId < mHitProgCount v \<longrightarrow>
        getHitRecordPtr v hitId geomId =
          Inr (unat (((1 + mMissProgCount v) + mHitProgCount v * geomId + hitId) * mRecordSize v)))"
proof -
  have size: "mRecordSize v = align_to (SHADER_RECORD_BYTE_ALIGNMENT dev)
           (GetShaderIdentifierSize dev + Max (set (allRootSigSizes pProgram rayGen)))"
    by (rule create_result(1) [OF cr rg])
  have dvd: "unat (SHADER_RECORD_BYTE_ALIGNMENT dev) dvd unat (mRecordSize v)"
    by (simp only: size align_to_dvd)
  note bounds = create_record_size_bounds [OF cr rg]
  have first: "mFirstHitVarEntry v = 1 + mMissProgCount v"
    using create_new_fields(4,5) [OF cr] by simp
  have rgp: "getRayGenRecordPtr v = unat (0 * mRecordSize v)"
    by (simp add: getRayGenRecordPtr_def kRayGenSbtRecordIndex_def)
  have ms: "getMissRecordPtr v missId = Inr (unat ((1 + missId) * mRecordSize v))"
    if "missId < mMissProgCount v" for missId
    using that by (simp add: getMissRecordPtr_def kFirstMissSbtRecordIndex_def mult.commute)
  have ht: "getHitRecordPtr v hitId geomId =
       Inr (unat (((1 + mMissProgCount v) + mHitProgCount v * geomId + hitId) * mRecordSize v))"
    if "hitId < mHitProgCount v" for hitId geomId
    using that by (simp add: getHitRecordPtr_def first)
  show ?thesis
    using size dvd bounds rgp ms ht by blast
qed

theorem record_size_aligned_max_witness:
  "create ex_device ex_program (Some ex_scene) = Inr (Some ex_vars) \<and>
   getRayGenProgram ex_program = Some ex_version \<and>
   mRecordSize ex_vars = align_to 64 (32 + 64) \<and>
   mRecordSize ex_vars = 128 \<and>
   (64::nat) dvd unat (mRecordSize ex_vars) \<and>
   getMissRecordPtr ex_vars 0 = Inr (unat (1 * mRecordSize ex_vars))"
proof -
  have mx: "Max (set (allRootSigSizes ex_program ex_version)) = 64"
    by (simp add: allRootSigSizes_def ex_program_def ex_version_def u32_range_def)
  have m: "(0::u32) < mMissProgCount ex_vars" by (simp add: ex_vars_def)
  show ?thesis
    using record_size_aligned_max [OF ex_create ex_rayGen] ex_create m
    by (simp add: mx ex_device_def ex_rayGen align_to_def ex_vars_def)
qed

text \<open>
  C3. For a program set with \<open>Mi\<close> miss programs and \<open>H\<close> hit programs and a scene with
  \<open>G\<close> geometry instances, the object that \<open>create\<close> returns has these counts, one
  ray-gen variable set, \<open>Mi\<close> miss variable sets and \<open>H\<close> rows of \<open>G\<close> hit variable sets,
  that is \<open>1 + Mi + H * G\<close> in all; \<open>init\<close> counts \<open>1 + Mi + H * G\<close> records, and the GPU
  buffer and the staging copy both have that count times the record size bytes. The
  sums and products of the sizes are those of the source, on 32 bits; where the table
  fits in 32 bits they are those of natural numbers.
\<close>

theorem sbt_entries_and_size:
  assumes cr: "create dev pProgram (Some scene) = Inr (Some v)"
  shows "mMissProgCount v = getMissProgramCount pProgram \<and>
     mHitProgCount v = getHitProgramCount pProgram \<and>
     numEntries (getMissProgramCount pProgram) (getHitProgramCount pProgram)
         (getGeometryCount scene (getHitProgramCount pProgram))
       = 1 + getMissProgramCount pProgram
           + getHitProgramCount pProgram * getGeometryCount scene (getHitProgramCount pProgram) \<and>
     mRayGenVars v \<noteq> None \<and>
     length (mMissVars v) = unat (getMissProgramCount pProgram) \<and>
     map length (mHitVars v)
       = replicate (unat (getHitProgramCount pProgram))
           (unat (getGeometryCount scene (getHitProgramCount pProgram))) \<and>
     1 + length (mMissVars v) + sum_list (map length (mHitVars v))
       = 1 + unat (getMissProgramCount pProgram)
           + unat (getHitProgramCount pProgram)
             * unat (getGeometryCount scene (getHitProgramCount pProgram)) \<and>
     map_option getSize (mpSBT v)
       = Some (unat ((1 + getMissProgramCount pProgram
                        + getHitProgramCount pProgram
                          * getGeometryCount scene (getHitProgramCount pProgram))
                  * mRecordSize v)) \<and>
     length (mSbtData v)
       = unat ((1 + getMissProgramCount pProgram
                  + getHitProgramCount pProgram
                    * getGeometryCount scene (getHitProgramCount pProgram))
                * mRecordSize v) \<and>
     (\<exists>rayGen. getRayGenProgram pProgram = Some rayGen \<and>
        mRecordSize v = align_to (SHADER_RECORD_BYTE_ALIGNMENT dev)
          (GetShaderIdentifierSize dev + Max (set (allRootSigSizes pProgram rayGen)))) \<and>
     ((1 + unat (getMissProgramCount pProgram)
         + unat (getHitProgramCount pProgram)
           * unat (getGeometryCount scene (getHitProgramCount pProgram)))
        * unat (mRecordSize v) < 2 ^ 32 \<longrightarrow>
      unat (numEntries (getMissProgramCount pProgram) (getHitProgramCount pProgram)
             (getGeometryCount scene (getHitProgramCount pProgram)))
        = 1 + unat (getMissProgramCount pProgram)
            + unat (getHitProgramCount pProgram)
              * unat (getGeometryCount scene (getHitProgramCount pProgram)) \<and>
      map_option getSize (mpSBT v)
        = Some ((1 + unat (getMissProgramCount pProgram)
            + unat (getHitProgramCount pProgram)
              * unat (getGeometryCount scene (getHitProgramCount pProgram)))
           * unat (mRecordSize v)) \<and>
      length (mSbtData v)
        = (1 + unat (getMissProgramCount pProgram)
            + unat (getHitProgramCount pProgram)
              * unat (getGeometryCount scene (getHitProgramCount pProgram)))
           * unat (mRecordSize v))"
proof -
  let ?Mi = "getMissProgramCount pProgram" and ?H = "getHitProgramCount pProgram"
  let ?G = "getGeometryCount scene (getHitProgramCount pProgram)"
  from create_new_fields(9) [OF cr] obtain rayGen
    where rg: "getRayGenProgram pProgram = Some rayGen" by auto
  note f = create_new_fields [OF cr]
  note r = create_result [OF cr rg]
  have cnt: "numEntries ?Mi ?H ?G = 1 + ?Mi + ?H * ?G"
    by (simp add: numEntries_def Let_def mult.commute)
  have rgv: "mRayGenVars v \<noteq> None" using r(2) by simp
  have mv: "length (mMissVars v) = unat ?Mi"
    by (simp add: r(4) length_u32_range)
  have hv: "map length (mHitVars v) = replicate (unat ?H) (unat ?G)"
    by (simp add: r(3) comp_def map_replicate_const length_u32_range)
  have total: "1 + length (mMissVars v) + sum_list (map length (mHitVars v))
      = 1 + unat ?Mi + unat ?H * unat ?G"
    by (simp add: hv mv sum_list_replicate)
  have buf: "map_option getSize (mpSBT v) = Some (unat (numEntries ?Mi ?H ?G * mRecordSize v))"
    using r(5) by simp
  have stg: "length (mSbtData v) = unat (numEntries ?Mi ?H ?G * mRecordSize v)"
    using r(6) by simp
  have R: "mRecordSize v \<noteq> 0" by (rule f(7))
  show ?thesis
    using f(3) f(4) cnt rgv mv hv total buf stg create_record_size [OF cr]
      numEntries_nat [OF _ R, of ?Mi ?H ?G]
    by (simp only: cnt [symmetric]) simp
qed

theorem sbt_entries_and_size_witness:
  "create ex_device ex_program (Some ex_scene) = Inr (Some ex_vars) \<and>
   mMissProgCount ex_vars = 1 \<and> mHitProgCount ex_vars = 1 \<and>
   numEntries 1 1 3 = 5 \<and>
   length (mMissVars ex_vars) = 1 \<and>
   map length (mHitVars ex_vars) = [3] \<and>
   map_option getSize (mpSBT ex_vars) = Some 640 \<and>
   length (mSbtData ex_vars) = 640"
proof -
  have fits: "(1 + unat (getMissProgramCount ex_program)
         + unat (getHitProgramCount ex_program)
           * unat (getGeometryCount ex_scene (getHitProgramCount ex_program)))
        * unat (mRecordSize ex_vars) < 2 ^ 32"
    by (simp add: ex_vars_def ex_counts)
  have r: "mRecordSize ex_vars = 128" by (simp add: ex_vars_def)
  show ?thesis
    using sbt_entries_and_size [OF ex_create] fits ex_create
    by (simp add: ex_counts r)
qed

text \<open>
  C4. The claim is that \<open>apply\<close> returns success only if every record, the ray-gen
  record included, was applied with success. The result of the ray-gen record is not
  read: with the bindings of the ray-gen record unresolved (its \<open>applyRtProgramVars\<close>
  returns false) and every hit and miss record resolved, \<open>apply\<close> sends all six
  commands, the upload last, and returns true.
\<close>

theorem rayGen_failure_ignored:
  "sbt_layout 3 ex_vars_rayGen_unresolved \<and>
   \<not> recordResolved ex_vars_rayGen_unresolved RayGenRecord \<and>
   (case applyRtProgramVars (getRayGenRecordPtr ex_vars_rayGen_unresolved) ex_version ex_rtso
           (mProgramIdentifierSize ex_vars_rayGen_unresolved)
           (getRayGenVars ex_vars_rayGen_unresolved)
           (mSbtData ex_vars_rayGen_unresolved, ex_ctx) of
      Inl f \<Rightarrow> None
    | Inr (ok, s) \<Rightarrow> Some ok) = Some False \<and>
   (case rtApply ex_ctx ex_rtso ex_vars_rayGen_unresolved of
      Inl f \<Rightarrow> None
    | Inr (ok, v', ctx') \<Rightarrow> Some (ok, commands ctx'))
     = Some (True, [SetRootParams 64 32, SetRootParams 64 288, SetRootParams 64 416,
                    SetRootParams 64 544, SetRootParams 64 160, UpdateBuffer])"
proof -
  have le: "getGeometryCount ex_scene (getHitProgramCount (mpProgram ex_vars_rayGen_unresolved)) \<le> 3"
    by (simp add: ex_counts)
  from rtApply_result [OF ex_layout(2) ex_counts(8) le, of ex_ctx ex_rtso]
  show ?thesis
    using ex_layout(2) ex_rayGen_apply_false
    by (auto simp: ex_counts ex_records ex_resolved ex_commands ex_ctx_def)
qed

text \<open>
  C5. In a state of the layout invariant, with no more geometry instances than the
  table was built for: if the bindings of a hit or miss record that \<open>apply\<close> reaches
  are unresolved, \<open>apply\<close> returns false, the GPU buffer is the one it was before, and
  no upload is among the commands sent.
\<close>

theorem failed_record_prevents_upload:
  assumes lay: "sbt_layout G v"
    and sc: "mpScene v = Some scene"
    and le: "getGeometryCount scene (getHitProgramCount (mpProgram v)) \<le> G"
    and r: "r \<in> set (hitRecords (getHitProgramCount (mpProgram v))
                       (getGeometryCount scene (getHitProgramCount (mpProgram v)))
                     @ missRecords (getMissProgramCount (mpProgram v)))"
    and bad: "\<not> recordResolved v r"
  shows "\<exists>v' ctx' cs.
           rtApply pCtx pRtso v = Inr (False, v', ctx') \<and>
           mpSBT v' = mpSBT v \<and>
           commands ctx' = commands pCtx @ cs \<and> UpdateBuffer \<notin> set cs"
proof -
  let ?recs = "hitRecords (getHitProgramCount (mpProgram v))
                 (getGeometryCount scene (getHitProgramCount (mpProgram v)))
               @ missRecords (getMissProgramCount (mpProgram v))"
  from r bad have nall: "\<not> list_all (recordResolved v) ?recs"
    by (auto simp: list_all_iff)
  from rtApply_result [OF lay sc le, of pCtx pRtso] nall
  obtain mem' ctx' where
    c: "commands ctx' = commands pCtx
       @ map (recordCommand v)
           (RayGenRecord # take (Suc (length (takeWhile (recordResolved v) ?recs))) ?recs)"
    and a: "rtApply pCtx pRtso v = Inr (False, v\<lparr>mSbtData := mem'\<rparr>, ctx')"
    by auto
  have "UpdateBuffer \<notin> set (map (recordCommand v)
           (RayGenRecord # take (Suc (length (takeWhile (recordResolved v) ?recs))) ?recs))"
    by (rule upload_not_in_records)
  with a c show ?thesis by force
qed

theorem failed_record_prevents_upload_witness:
  "create ex_device ex_program (Some ex_scene) = Inr (Some ex_vars) \<and>
   sbt_layout 3 ex_vars_hit_unresolved \<and>
   mpScene ex_vars_hit_unresolved = Some ex_scene \<and>
   getGeometryCount ex_scene (getHitProgramCount (mpProgram ex_vars_hit_unresolved)) \<le> 3 \<and>
   HitRecord 0 1 \<in> set (hitRecords (getHitProgramCount (mpProgram ex_vars_hit_unresolved))
         (getGeometryCount ex_scene (getHitProgramCount (mpProgram ex_vars_hit_unresolved)))
       @ missRecords (getMissProgramCount (mpProgram ex_vars_hit_unresolved))) \<and>
   \<not> recordResolved ex_vars_hit_unresolved (HitRecord 0 1) \<and>
   (\<exists>v' ctx' cs.
      rtApply ex_ctx ex_rtso ex_vars_hit_unresolved = Inr (False, v', ctx') \<and>
      mpSBT v' = mpSBT ex_vars_hit_unresolved \<and>
      commands ctx' = commands ex_ctx @ cs \<and> UpdateBuffer \<notin> set cs)"
proof -
  have sc: "mpScene ex_vars_hit_unresolved = Some ex_scene"
    by (simp add: ex_vars_hit_unresolved_def ex_vars_def)
  have le: "getGeometryCount ex_scene (getHitProgramCount (mpProgram ex_vars_hit_unresolved)) \<le> 3"
    by (simp add: ex_scene_def)
  have r: "HitRecord 0 1 \<in> set (hitRecords (getHitProgramCount (mpProgram ex_vars_hit_unresolved))
         (getGeometryCount ex_scene (getHitProgramCount (mpProgram ex_vars_hit_unresolved)))
       @ missRecords (getMissProgramCount (mpProgram ex_vars_hit_unresolved)))"
    by (simp add: ex_vars_hit_unresolved_def ex_vars_def ex_program_def ex_scene_def ex_records)
  have bad: "\<not> recordResolved ex_vars_hit_unresolved (HitRecord 0 1)"
    by (simp add: recordResolved_def getHitVars_def ex_vars_hit_unresolved_def ex_vars_def
        ex_unresolved_def)
  show ?thesis
    using failed_record_prevents_upload [OF ex_layout(3) sc le r bad, of ex_ctx ex_rtso]
      ex_layout(3) sc le r bad ex_create
    by simp
qed

text \<open>
  C6. The claim is that every accessor rejects an index out of range. The miss
  accessor and the hit accessor's \<open>hitId\<close> are asserted, the hit accessor's geometry
  index is not: in the configuration of three geometry instances, geometry index 3
  is accepted and the address returned is the end of the staging copy.
\<close>

theorem hit_accessor_unchecked_geometry:
  "create ex_device ex_program (Some ex_scene) = Inr (Some ex_vars) \<and>
   getGeometryCount ex_scene (mHitProgCount ex_vars) = 3 \<and>
   getHitRecordPtr ex_vars 0 3 = Inr 640 \<and>
   length (mSbtData ex_vars) = 640 \<and>
   getHitRecordPtr ex_vars 1 0 = Inl AssertionFailed \<and>
   getMissRecordPtr ex_vars 1 = Inl AssertionFailed"
  using ex_create
  by (simp add: ex_scene_def ex_vars_def getHitRecordPtr_def getMissRecordPtr_def)

text \<open>
  C7. \<open>create\<close> returns null, and no object, when the scene is null or the program set
  has no ray-gen program; when both are there and \<open>init\<close> returns true, it returns the
  initialized object.
\<close>

theorem create_fail_fast:
  "(pScene = None \<or> getRayGenProgram pProgram = None \<longrightarrow>
      create dev pProgram pScene = Inr None) \<and>
   (pScene \<noteq> None \<and> getRayGenProgram pProgram \<noteq> None \<and>
    init dev (RtProgramVars_new pProgram pScene) = Inr (True, v) \<longrightarrow>
      create dev pProgram pScene = Inr (Some v))"
  by (auto simp: create_def checkParams_def)

theorem create_fail_fast_witness:
  "create ex_device ex_program None = Inr None \<and>
   create ex_device (ex_program\<lparr>getRayGenProgram := None\<rparr>) (Some ex_scene) = Inr None \<and>
   init ex_device (RtProgramVars_new ex_program (Some ex_scene)) = Inr (True, ex_vars) \<and>
   create ex_device ex_program (Some ex_scene) = Inr (Some ex_vars)"
proof -
  have ini: "init ex_device (RtProgramVars_new ex_program (Some ex_scene)) = Inr (True, ex_vars)"
    by (rule create_init [OF ex_create])
  show ?thesis
    using create_fail_fast [of None ex_program ex_device]
      create_fail_fast [of "Some ex_scene" "ex_program\<lparr>getRayGenProgram := None\<rparr>" ex_device]
      create_fail_fast [of "Some ex_scene" ex_program ex_device ex_vars] ini
    by (simp add: ex_rayGen)
qed

text \<open>
  C8, as claimed: a record size of zero makes \<open>create\<close> return null. It does not: in
  the configuration without identifier bytes and parameters the record size is zero
  and \<open>create\<close> does not return null.
\<close>

theorem zero_record_size_counterexample:
  "align_to (SHADER_RECORD_BYTE_ALIGNMENT ex_zero_device)
     (GetShaderIdentifierSize ex_zero_device
        + Max (set (allRootSigSizes ex_zero_program ex_zero_version))) = 0 \<and>
   create ex_zero_device ex_zero_program (Some ex_scene) \<noteq> Inr None"
  by (simp add: create_def checkParams_def init_def RtProgramVars_new_def ex_zero_program_def
      ex_scene_def ex_zero_device_def ex_zero_version_def getSigSizeAndCreateVars_def
      for_loop.simps numEntries_def align_to_def allRootSigSizes_def u32_range_def Let_def)

text \<open>
  C8, amended: a record size of zero fails the assertion of \<open>init\<close>, so construction
  stops there and \<open>create\<close> returns nothing; \<open>create\<close> returns null exactly when the scene
  is null or the program set has no ray-gen program.
\<close>

theorem zero_record_size_assertion:
  "(getRayGenProgram pProgram = Some rayGen \<and> SHADER_RECORD_BYTE_ALIGNMENT dev \<noteq> 0 \<and>
    align_to (SHADER_RECORD_BYTE_ALIGNMENT dev)
      (GetShaderIdentifierSize dev + Max (set (allRootSigSizes pProgram rayGen))) = 0 \<longrightarrow>
      create dev pProgram (Some scene) = Inl AssertionFailed) \<and>
   (create dev pProgram pScene = Inr None \<longleftrightarrow>
      pScene = None \<or> getRayGenProgram pProgram = None)"
proof -
  have zero: "create dev pProgram (Some scene) = Inl AssertionFailed"
    if rg: "getRayGenProgram pProgram = Some rayGen"
      and al: "SHADER_RECORD_BYTE_ALIGNMENT dev \<noteq> 0"
      and z: "align_to (SHADER_RECORD_BYTE_ALIGNMENT dev)
        (GetShaderIdentifierSize dev + Max (set (allRootSigSizes pProgram rayGen))) = 0"
  proof -
    have rg': "getRayGenProgram (mpProgram (RtProgramVars_new pProgram (Some scene))) = Some rayGen"
      using rg by (simp add: RtProgramVars_new_def)
    have sc': "mpScene (RtProgramVars_new pProgram (Some scene)) = Some scene"
      by (simp add: RtProgramVars_new_def)
    have p: "mpProgram (RtProgramVars_new pProgram (Some scene)) = pProgram"
      by (simp add: RtProgramVars_new_def)
    have "init dev (RtProgramVars_new pProgram (Some scene)) = Inl AssertionFailed"
      using init_cases(1) [OF rg' sc' al] z by (simp only: p)
    then show ?thesis using rg by (simp add: create_def checkParams_def)
  qed
  have null: "pScene = None \<or> getRayGenProgram pProgram = None"
    if "create dev pProgram pScene = Inr None"
  proof (rule ccontr)
    assume "\<not> (pScene = None \<or> getRayGenProgram pProgram = None)"
    then have chk: "checkParams pProgram pScene" by (simp add: checkParams_def)
    with that obtain pVars where "init dev (RtProgramVars_new pProgram pScene) = Inr (False, pVars)"
      by (auto simp: create_def Let_def split: sum.splits if_splits)
    then show False using init_fields(1) by blast
  qed
  have nul2: "create dev pProgram pScene = Inr None"
    if "pScene = None \<or> getRayGenProgram pProgram = None"
    using that by (auto simp: create_def checkParams_def)
  show ?thesis
  proof (intro conjI impI iffI)
    assume "getRayGenProgram pProgram = Some rayGen \<and> SHADER_RECORD_BYTE_ALIGNMENT dev \<noteq> 0 \<and>
      align_to (SHADER_RECORD_BYTE_ALIGNMENT dev)
        (GetShaderIdentifierSize dev + Max (set (allRootSigSizes pProgram rayGen))) = 0"
    then show "create dev pProgram (Some scene) = Inl AssertionFailed"
      using zero by simp
  next
    assume "create dev pProgram pScene = Inr None"
    then show "pScene = None \<or> getRayGenProgram pProgram = None" by (rule null)
  next
    assume "pScene = None \<or> getRayGenProgram pProgram = None"
    then show "create dev pProgram pScene = Inr None" by (rule nul2)
  qed
qed

theorem zero_record_size_assertion_witness:
  "getRayGenProgram ex_zero_program = Some ex_zero_version \<and>
   SHADER_RECORD_BYTE_ALIGNMENT ex_zero_device \<noteq> 0 \<and>
   align_to (SHADER_RECORD_BYTE_ALIGNMENT ex_zero_device)
     (GetShaderIdentifierSize ex_zero_device
        + Max (set (allRootSigSizes ex_zero_program ex_zero_version))) = 0 \<and>
   create ex_zero_device ex_zero_program (Some ex_scene) = Inl AssertionFailed \<and>
   create ex_zero_device ex_zero_program None = Inr None"
proof -
  have al: "SHADER_RECORD_BYTE_ALIGNMENT ex_zero_device \<noteq> 0"
    by (simp add: ex_zero_device_def)
  have z: "align_to (SHADER_RECORD_BYTE_ALIGNMENT ex_zero_device)
     (GetShaderIdentifierSize ex_zero_device
        + Max (set (allRootSigSizes ex_zero_program ex_zero_version))) = 0"
    by (simp add: ex_zero_program_def ex_zero_device_def ex_zero_version_def
        align_to_def allRootSigSizes_def u32_range_def)
  show ?thesis
    using zero_record_size_assertion
            [of ex_zero_program ex_zero_version ex_zero_device ex_scene None]
          ex_zero_rayGen al z
    by simp
qed

text \<open>
  C9. In a state of the layout invariant, with no more geometry instances than the
  table was built for, \<open>apply\<close> returns. The records it writes are the ray-gen
  record, then the hit records with the hit index in the outer and the geometry index
  in the inner loop, then the miss records in their order, up to and with the first
  hit or miss record whose bindings are unresolved. The staging copy it leaves is the
  old one with these records written one after the other, each at the address of its
  offset formula, and the commands it sends are theirs, in this order. If a hit or
  miss record is unresolved \<open>apply\<close> returns false and the GPU buffer is as it was;
  otherwise the upload is the last command, the GPU buffer holds the whole staging
  copy and \<open>apply\<close> returns true. Nothing else of the object changes.
\<close>

theorem apply_order:
  fixes pRtso :: RtStateObject
  assumes lay: "sbt_layout G v"
    and sc: "mpScene v = Some scene"
    and le: "getGeometryCount scene (getHitProgramCount (mpProgram v)) \<le> G"
  shows "let recs = hitRecords (getHitProgramCount (mpProgram v))
                      (getGeometryCount scene (getHitProgramCount (mpProgram v)))
                    @ missRecords (getMissProgramCount (mpProgram v));
             written = RayGenRecord
                       # take (Suc (length (takeWhile (recordResolved v) recs))) recs;
             ok = list_all (recordResolved v) recs;
             mem' = fold (writeRecord v pRtso) written (mSbtData v)
         in
     (\<exists>ctx'.
        rtApply pCtx pRtso v =
          Inr (ok,
               v\<lparr>mSbtData := mem',
                 mpSBT := (if ok then map_option (\<lambda>buf. buf\<lparr>contents := mem'\<rparr>) (mpSBT v)
                           else mpSBT v)\<rparr>,
               ctx') \<and>
        commands ctx' = commands pCtx @ map (recordCommand v) written
          @ (if ok then [UpdateBuffer] else [])) \<and>
     length mem' = length (mSbtData v) \<and>
     recordPtr v RayGenRecord = Inr 0 \<and>
     (\<forall>h i. h < getHitProgramCount (mpProgram v) \<and>
            i < getGeometryCount scene (getHitProgramCount (mpProgram v)) \<longrightarrow>
        recordPtr v (HitRecord h i)
          = Inr ((1 + unat (getMissProgramCount (mpProgram v))
                    + unat (getHitProgramCount (mpProgram v)) * unat i + unat h)
                   * unat (mRecordSize v))) \<and>
     (\<forall>m. m < getMissProgramCount (mpProgram v) \<longrightarrow>
        recordPtr v (MissRecord m) = Inr ((1 + unat m) * unat (mRecordSize v)))"
proof -
  note d = layoutD [OF lay]
  have rgp: "recordPtr v RayGenRecord = Inr 0"
    by (simp add: getRayGenRecordPtr_def kRayGenSbtRecordIndex_def)
  have hp: "\<forall>h i. h < getHitProgramCount (mpProgram v) \<and>
            i < getGeometryCount scene (getHitProgramCount (mpProgram v)) \<longrightarrow>
        recordPtr v (HitRecord h i)
          = Inr ((1 + unat (getMissProgramCount (mpProgram v))
                    + unat (getHitProgramCount (mpProgram v)) * unat i + unat h)
                   * unat (mRecordSize v))"
  proof (intro allI impI)
    fix h i
    assume "h < getHitProgramCount (mpProgram v) \<and>
            i < getGeometryCount scene (getHitProgramCount (mpProgram v))"
    then have h: "h < mHitProgCount v" and i: "i < G"
      using le by (auto simp: d(3) intro: less_le_trans)
    show "recordPtr v (HitRecord h i)
          = Inr ((1 + unat (getMissProgramCount (mpProgram v))
                    + unat (getHitProgramCount (mpProgram v)) * unat i + unat h)
                   * unat (mRecordSize v))"
      using layout_hit_fits(2) [OF lay h i] by (simp only: d(3) d(4))
  qed
  have mp: "\<forall>m. m < getMissProgramCount (mpProgram v) \<longrightarrow>
        recordPtr v (MissRecord m) = Inr ((1 + unat m) * unat (mRecordSize v))"
    using layout_miss_fits(2) [OF lay] by (simp add: d(4))
  note w1 = rtApply_writes(1) [OF lay sc le, where pRtso = pRtso and pCtx = pCtx]
  note w2 = rtApply_writes(2) [OF lay sc le, where pRtso = pRtso]
  show ?thesis
    unfolding Let_def
    by (intro conjI w1 w2 rgp hp mp)
qed

theorem apply_order_witness:
  "create ex_device ex_program (Some ex_scene) = Inr (Some ex_vars) \<and>
   sbt_layout 3 ex_vars_bound \<and> mpScene ex_vars_bound = Some ex_scene \<and>
   getGeometryCount ex_scene (getHitProgramCount (mpProgram ex_vars_bound)) \<le> 3 \<and>
   (\<exists>ctx'.
      rtApply ex_ctx ex_rtso ex_vars_bound
        = Inr (True,
               ex_vars_bound\<lparr>mSbtData := ex_slot @ ex_slot @ ex_slot @ ex_slot @ ex_slot,
                 mpSBT := Some \<lparr>getSize = 640,
                            contents = ex_slot @ ex_slot @ ex_slot @ ex_slot @ ex_slot\<rparr>\<rparr>,
               ctx') \<and>
      commands ctx' = [SetRootParams 64 32, SetRootParams 64 288, SetRootParams 64 416,
                       SetRootParams 64 544, SetRootParams 64 160, UpdateBuffer]) \<and>
   sbt_layout 3 ex_vars_bound_unresolved \<and>
   mpScene ex_vars_bound_unresolved = Some ex_scene \<and>
   getGeometryCount ex_scene (getHitProgramCount (mpProgram ex_vars_bound_unresolved)) \<le> 3 \<and>
   (\<exists>ctx'.
      rtApply ex_ctx ex_rtso ex_vars_bound_unresolved
        = Inr (False,
               ex_vars_bound_unresolved
                 \<lparr>mSbtData := ex_slot @ replicate 128 0 @ ex_slot @ replicate 32 7
                               @ replicate 96 0 @ replicate 128 0,
                  mpSBT := Some \<lparr>getSize = 640, contents = replicate 640 0\<rparr>\<rparr>,
               ctx') \<and>
      commands ctx' = [SetRootParams 64 32, SetRootParams 64 288, SetRootParams 64 416])"
proof -
  have le1: "getGeometryCount ex_scene (getHitProgramCount (mpProgram ex_vars_bound)) \<le> 3"
    by (simp add: ex_counts)
  have le2: "getGeometryCount ex_scene (getHitProgramCount (mpProgram ex_vars_bound_unresolved))
      \<le> 3"
    by (simp add: ex_counts)
  have recs1: "hitRecords (getHitProgramCount (mpProgram ex_vars_bound))
                 (getGeometryCount ex_scene (getHitProgramCount (mpProgram ex_vars_bound)))
               @ missRecords (getMissProgramCount (mpProgram ex_vars_bound))
      = [HitRecord 0 0, HitRecord 0 1, HitRecord 0 2, MissRecord 0]"
    by (simp only: ex_bound_fields ex_counts ex_records)
  have recs2: "hitRecords (getHitProgramCount (mpProgram ex_vars_bound_unresolved))
                 (getGeometryCount ex_scene
                    (getHitProgramCount (mpProgram ex_vars_bound_unresolved)))
               @ missRecords (getMissProgramCount (mpProgram ex_vars_bound_unresolved))
      = [HitRecord 0 0, HitRecord 0 1, HitRecord 0 2, MissRecord 0]"
    by (simp only: ex_bound_fields ex_counts ex_records)
  have w1: "RayGenRecord # take (Suc (length (takeWhile (recordResolved ex_vars_bound)
              [HitRecord 0 0, HitRecord 0 1, HitRecord 0 2, MissRecord 0])))
              [HitRecord 0 0, HitRecord 0 1, HitRecord 0 2, MissRecord 0]
      = [RayGenRecord, HitRecord 0 0, HitRecord 0 1, HitRecord 0 2, MissRecord 0]"
    by (simp add: ex_bound_resolved)
  have w2: "RayGenRecord # take (Suc (length (takeWhile (recordResolved ex_vars_bound_unresolved)
              [HitRecord 0 0, HitRecord 0 1, HitRecord 0 2, MissRecord 0])))
              [HitRecord 0 0, HitRecord 0 1, HitRecord 0 2, MissRecord 0]
      = [RayGenRecord, HitRecord 0 0, HitRecord 0 1]"
    by (simp add: ex_bound_resolved)
  have ok1: "list_all (recordResolved ex_vars_bound)
               [HitRecord 0 0, HitRecord 0 1, HitRecord 0 2, MissRecord 0]"
    by (simp add: ex_bound_resolved)
  have ok2: "\<not> list_all (recordResolved ex_vars_bound_unresolved)
               [HitRecord 0 0, HitRecord 0 1, HitRecord 0 2, MissRecord 0]"
    by (simp add: ex_bound_resolved)
  note t1 = apply_order [OF ex_bound_layout(1) ex_bound_fields(2) le1,
      where pRtso = ex_rtso and pCtx = ex_ctx,
      unfolded Let_def recs1 w1 ex_bound_fields(5) ex_staging_success]
  note t2 = apply_order [OF ex_bound_layout(2) ex_bound_fields(4) le2,
      where pRtso = ex_rtso and pCtx = ex_ctx,
      unfolded Let_def recs2 w2 ex_bound_fields(6) ex_staging_failure]
  have a1: "\<exists>ctx'.
      rtApply ex_ctx ex_rtso ex_vars_bound
        = Inr (True,
               ex_vars_bound\<lparr>mSbtData := ex_slot @ ex_slot @ ex_slot @ ex_slot @ ex_slot,
                 mpSBT := Some \<lparr>getSize = 640,
                            contents = ex_slot @ ex_slot @ ex_slot @ ex_slot @ ex_slot\<rparr>\<rparr>,
               ctx') \<and>
      commands ctx' = [SetRootParams 64 32, SetRootParams 64 288, SetRootParams 64 416,
                       SetRootParams 64 544, SetRootParams 64 160, UpdateBuffer]"
    using t1 by (simp add: ex_bound_fields ex_bound_commands ex_bound_resolved ex_ctx_def)
  have a2: "\<exists>ctx'.
      rtApply ex_ctx ex_rtso ex_vars_bound_unresolved
        = Inr (False,
               ex_vars_bound_unresolved
                 \<lparr>mSbtData := ex_slot @ replicate 128 0 @ ex_slot @ replicate 32 7
                               @ replicate 96 0 @ replicate 128 0,
                  mpSBT := Some \<lparr>getSize = 640, contents = replicate 640 0\<rparr>\<rparr>,
               ctx') \<and>
      commands ctx' = [SetRootParams 64 32, SetRootParams 64 288, SetRootParams 64 416]"
    using t2 by (simp add: ex_bound_fields ex_bound_commands ex_bound_resolved ex_ctx_def)
  show ?thesis
    using a1 a2 ex_create ex_bound_layout ex_bound_fields(2) ex_bound_fields(4) le1 le2
    by simp
qed

text \<open>
  C10. The staging copy has the size \<open>init\<close> gave it for \<open>G\<close> geometry instances, and
  \<open>apply\<close> writes a hit record for every geometry instance the scene has now. If the
  scene has at most \<open>G\<close>, every hit record fits in the staging copy and \<open>apply\<close>
  returns. If it has more (and there is a hit program, identifiers are not empty and
  the first \<open>G\<close> hit records are resolved), hit record \<open>(0, G)\<close> is at the end of the
  staging copy and \<open>apply\<close> writes past it.
\<close>

theorem hit_writes_in_bounds:
  assumes lay: "sbt_layout G v"
    and sc: "mpScene v = Some scene"
  shows "(getGeometryCount scene (getHitProgramCount (mpProgram v)) \<le> G \<longrightarrow>
            (\<forall>r\<in>set (hitRecords (getHitProgramCount (mpProgram v))
                        (getGeometryCount scene (getHitProgramCount (mpProgram v)))).
               recordFits v r) \<and>
            (\<exists>res. rtApply pCtx pRtso v = Inr res)) \<and>
         (G < getGeometryCount scene (getHitProgramCount (mpProgram v)) \<and>
          0 < getHitProgramCount (mpProgram v) \<and> 0 < mProgramIdentifierSize v \<and>
          (\<forall>i. i < G \<longrightarrow> recordResolved v (HitRecord 0 i)) \<longrightarrow>
            recordPtr v (HitRecord 0 G) = Inr (length (mSbtData v)) \<and>
            rtApply pCtx pRtso v = Inl BufferOverrun)"
proof (intro conjI impI)
  assume le: "getGeometryCount scene (getHitProgramCount (mpProgram v)) \<le> G"
  note d = layoutD [OF lay]
  show "\<forall>r\<in>set (hitRecords (getHitProgramCount (mpProgram v))
                        (getGeometryCount scene (getHitProgramCount (mpProgram v)))).
               recordFits v r"
    using layout_records_fit [OF lay le] by (simp add: d(3))
  from rtApply_result [OF lay sc le, of pCtx pRtso]
  show "\<exists>res. rtApply pCtx pRtso v = Inr res" by blast
next
  assume a: "G < getGeometryCount scene (getHitProgramCount (mpProgram v)) \<and>
          0 < getHitProgramCount (mpProgram v) \<and> 0 < mProgramIdentifierSize v \<and>
          (\<forall>i. i < G \<longrightarrow> recordResolved v (HitRecord 0 i))"
  then show "recordPtr v (HitRecord 0 G) = Inr (length (mSbtData v))"
    using rtApply_overrun(1) [OF lay sc] by blast
next
  assume a: "G < getGeometryCount scene (getHitProgramCount (mpProgram v)) \<and>
          0 < getHitProgramCount (mpProgram v) \<and> 0 < mProgramIdentifierSize v \<and>
          (\<forall>i. i < G \<longrightarrow> recordResolved v (HitRecord 0 i))"
  then show "rtApply pCtx pRtso v = Inl BufferOverrun"
    using rtApply_overrun(2) [OF lay sc] by blast
qed

theorem hit_writes_in_bounds_witness:
  "create ex_device ex_program (Some ex_scene) = Inr (Some ex_vars) \<and>
   ex_vars_grown = ex_vars\<lparr>mpScene := Some ex_scene_grown\<rparr> \<and>
   sbt_layout 3 ex_vars \<and> mpScene ex_vars = Some ex_scene \<and>
   getGeometryCount ex_scene (getHitProgramCount (mpProgram ex_vars)) \<le> 3 \<and>
   recordFits ex_vars (HitRecord 0 2) \<and>
   (\<exists>res. rtApply ex_ctx ex_rtso ex_vars = Inr res) \<and>
   sbt_layout 3 ex_vars_grown \<and> mpScene ex_vars_grown = Some ex_scene_grown \<and>
   3 < getGeometryCount ex_scene_grown (getHitProgramCount (mpProgram ex_vars_grown)) \<and>
   0 < getHitProgramCount (mpProgram ex_vars_grown) \<and>
   0 < mProgramIdentifierSize ex_vars_grown \<and>
   recordResolved ex_vars_grown (HitRecord 0 0) \<and>
   recordResolved ex_vars_grown (HitRecord 0 1) \<and>
   recordResolved ex_vars_grown (HitRecord 0 2) \<and>
   recordPtr ex_vars_grown (HitRecord 0 3) = Inr 640 \<and>
   length (mSbtData ex_vars_grown) = 640 \<and>
   rtApply ex_ctx ex_rtso ex_vars_grown = Inl BufferOverrun"
proof -
  have res: "\<forall>i. i < 3 \<longrightarrow> recordResolved ex_vars_grown (HitRecord 0 i)"
    by (auto simp: u32_less_3 ex_resolved)
  have idp: "0 < mProgramIdentifierSize ex_vars_grown"
    by (simp add: ex_vars_grown_def ex_vars_def)
  have len: "length (mSbtData ex_vars_grown) = 640"
    by (simp add: ex_vars_grown_def ex_vars_def)
  have in_recs: "HitRecord 0 2 \<in> set (hitRecords 1 3)"
    by (simp add: hitRecords_def ex_u32_range)
  show ?thesis
    using hit_writes_in_bounds [OF ex_layout(1) ex_counts(6), of ex_ctx ex_rtso]
      hit_writes_in_bounds [OF ex_layout(4) ex_counts(12), of ex_ctx ex_rtso]
      ex_layout(1) ex_layout(4) res idp len in_recs ex_create ex_vars_grown_def
    by (simp add: ex_counts ex_resolved)
qed

end
